theory Spec2Isabelle
  imports Main "HOL-Library.AList"
begin

section \<open>Python values\<close>

text \<open>
  The webhook handler and the metadata enhancer work on what \<^verbatim>\<open>json.loads\<close> returns:
  \<^verbatim>\<open>None\<close>, booleans, integers, floats, strings, lists and dictionaries with string keys.
  The code observes a float only through its truth value and its printed form, so a float
  is represented by these two observations; the printed form of a float is never empty,
  which is why it is kept as a first character and a rest.

  A dictionary is an association list read from the left: the first pair with a given
  key is the dictionary's entry for it, and \<open>dict_items\<close> lists each key once.
\<close>

datatype pyfloat = PyFloat (float_is_zero: bool) (float_str_hd: char) (float_str_tl: string)

datatype pyval =
    PNone
  | PBool bool
  | PInt int
  | PFloat pyfloat
  | PStr string
  | PList "pyval list"
  | PDict "(string \<times> pyval) list"

type_synonym pydict = "(string \<times> pyval) list"

datatype py_error = AttributeError | TypeError | KeyError | IndexError | ValueError | ClientError

text \<open>\<^verbatim>\<open>bool(v)\<close>, the test behind \<^verbatim>\<open>if v\<close>, \<^verbatim>\<open>a or b\<close>, \<^verbatim>\<open>all\<close> and \<^verbatim>\<open>any\<close>.\<close>

fun truthy :: "pyval \<Rightarrow> bool" where
  "truthy PNone = False"
| "truthy (PBool b) = b"
| "truthy (PInt i) = (i \<noteq> 0)"
| "truthy (PFloat f) = (\<not> float_is_zero f)"
| "truthy (PStr s) = (s \<noteq> [])"
| "truthy (PList xs) = (xs \<noteq> [])"
| "truthy (PDict kvs) = (kvs \<noteq> [])"

definition py_or :: "pyval \<Rightarrow> pyval \<Rightarrow> pyval" where
  "py_or a b = (if truthy a then a else b)"

definition dict_items :: "pydict \<Rightarrow> pydict" where
  "dict_items d = AList.clearjunk d"

text \<open>\<^verbatim>\<open>d.get(k, default)\<close> and \<^verbatim>\<open>d[k] = v\<close> on a dictionary.\<close>

definition dict_get :: "pydict \<Rightarrow> string \<Rightarrow> pyval \<Rightarrow> pyval" where
  "dict_get d k dflt = (case map_of d k of None \<Rightarrow> dflt | Some v \<Rightarrow> v)"

definition dict_set :: "pydict \<Rightarrow> string \<Rightarrow> pyval \<Rightarrow> pydict" where
  "dict_set d k v = AList.update k v d"

text \<open>\<^verbatim>\<open>any(d.values())\<close>.\<close>

definition any_values :: "pydict \<Rightarrow> bool" where
  "any_values d = list_ex (\<lambda>kv. truthy (snd kv)) (dict_items d)"

text \<open>
  \<^verbatim>\<open>obj.get(k, default)\<close> on an arbitrary value: only a dictionary has the method,
  every other value raises \<^verbatim>\<open>AttributeError\<close>.
\<close>

fun py_get :: "pyval \<Rightarrow> string \<Rightarrow> pyval \<Rightarrow> py_error + pyval" where
  "py_get (PDict d) k dflt = Inr (dict_get d k dflt)"
| "py_get _ k dflt = Inl AttributeError"

text \<open>\<^verbatim>\<open>needle in haystack\<close> on two strings is the substring test.\<close>

fun starts_with :: "string \<Rightarrow> string \<Rightarrow> bool" where
  "starts_with [] s = True"
| "starts_with (c # cs) [] = False"
| "starts_with (c # cs) (d # ds) = (c = d \<and> starts_with cs ds)"

fun contains_str :: "string \<Rightarrow> string \<Rightarrow> bool" where
  "contains_str needle [] = (needle = [])"
| "contains_str needle (c # cs) = (starts_with needle (c # cs) \<or> contains_str needle cs)"

text \<open>
  \<^verbatim>\<open>k in obj\<close> for a string \<open>k\<close>: key membership in a dictionary, element membership in
  a list, the substring test in a string, \<^verbatim>\<open>TypeError\<close> for everything else.
\<close>

fun py_contains :: "string \<Rightarrow> pyval \<Rightarrow> py_error + bool" where
  "py_contains k (PDict d) = Inr (map_of d k \<noteq> None)"
| "py_contains k (PList xs) = Inr (PStr k \<in> set xs)"
| "py_contains k (PStr s) = Inr (contains_str k s)"
| "py_contains k _ = Inl TypeError"

text \<open>
  \<^verbatim>\<open>obj[k]\<close> for a string \<open>k\<close>: a dictionary raises \<^verbatim>\<open>KeyError\<close> on a missing key,
  lists and strings take integer indices only, the other values are not subscriptable.
\<close>

fun py_getitem :: "pyval \<Rightarrow> string \<Rightarrow> py_error + pyval" where
  "py_getitem (PDict d) k = (case map_of d k of None \<Rightarrow> Inl KeyError | Some v \<Rightarrow> Inr v)"
| "py_getitem _ k = Inl TypeError"

subsection \<open>Printing\<close>

definition digit_char :: "nat \<Rightarrow> char" where
  "digit_char n = ''0123456789abcdef'' ! n"

function str_nat :: "nat \<Rightarrow> string" where
  "str_nat n = (if n < 10 then [digit_char n] else str_nat (n div 10) @ [digit_char (n mod 10)])"
  by pat_completeness auto
termination
  by (relation "measure id") auto

definition str_int :: "int \<Rightarrow> string" where
  "str_int i = (if i < 0 then CHR ''-'' # str_nat (nat (- i)) else str_nat (nat i))"

text \<open>
  \<^verbatim>\<open>repr\<close> of a string: double quotes when the string holds a single quote and no
  double quote, single quotes otherwise. In an ASCII string, backslash, the chosen
  quote, tab, newline and carriage return are escaped, the other control characters are
  written \<^verbatim>\<open>\xhh\<close> and every other character is copied. Beyond ASCII, Python escapes a
  character or copies it according to the Unicode character database (a non-printable
  one such as U+3000 is written \<^verbatim>\<open>\u3000\<close>); the database is not part of this model, so
  for a string holding a byte from 0x80 on the text between the quotes is left
  unspecified.
\<close>

definition escape_char :: "char \<Rightarrow> char \<Rightarrow> string" where
  "escape_char q c =
     (if c = CHR 0x5C then [CHR 0x5C, CHR 0x5C]
      else if c = q then [CHR 0x5C, q]
      else if c = CHR 0x09 then [CHR 0x5C, CHR ''t'']
      else if c = CHR 0x0A then [CHR 0x5C, CHR ''n'']
      else if c = CHR 0x0D then [CHR 0x5C, CHR ''r'']
      else if (of_char c :: nat) < 32 \<or> c = CHR 0x7F
        then [CHR 0x5C, CHR ''x'', digit_char ((of_char c :: nat) div 16),
              digit_char ((of_char c :: nat) mod 16)]
      else [c])"

definition is_ascii :: "string \<Rightarrow> bool" where
  "is_ascii s = list_all (\<lambda>c. (of_char c :: nat) < 128) s"

definition unicode_escaped :: "char \<Rightarrow> string \<Rightarrow> string" where
  "unicode_escaped q s = undefined q s"

definition repr_str :: "string \<Rightarrow> string" where
  "repr_str s =
     (let q = (if CHR 0x27 \<in> set s \<and> CHR 0x22 \<notin> set s then CHR 0x22 else CHR 0x27)
      in q # (if is_ascii s then concat (map (escape_char q) s) else unicode_escaped q s) @ [q])"

fun join_comma :: "string list \<Rightarrow> string" where
  "join_comma [] = []"
| "join_comma [s] = s"
| "join_comma (s # t # ss) = s @ '', '' @ join_comma (t # ss)"

text \<open>\<^verbatim>\<open>repr(v)\<close>; \<^verbatim>\<open>str(v)\<close> differs from it on strings only.\<close>

function (sequential) py_repr :: "pyval \<Rightarrow> string" where
  "py_repr PNone = ''None''"
| "py_repr (PBool b) = (if b then ''True'' else ''False'')"
| "py_repr (PInt i) = str_int i"
| "py_repr (PFloat f) = float_str_hd f # float_str_tl f"
| "py_repr (PStr s) = repr_str s"
| "py_repr (PList xs) = ''['' @ join_comma (map py_repr xs) @ '']''"
| "py_repr (PDict kvs) =
     ''{'' @ join_comma (map (\<lambda>kv. repr_str (fst kv) @ '': '' @ py_repr (snd kv)) (dict_items kvs)) @ ''}''"
  by pat_completeness auto
termination
proof (relation "measure size")
  show "wf (measure size)" by simp
next
  fix xs :: "pyval list" and x
  assume "x \<in> set xs"
  then show "(x, PList xs) \<in> measure size"
    by (induction xs) auto
next
  fix kvs :: "(string \<times> pyval) list" and kv
  assume a: "kv \<in> set (dict_items kvs)"
  have "map_of (AList.clearjunk kvs) (fst kv) = Some (snd kv)"
    using a unfolding dict_items_def by (intro map_of_is_SomeI) simp_all
  then have "map_of kvs (fst kv) = Some (snd kv)"
    by (simp add: map_of_clearjunk)
  then have "kv \<in> set kvs"
    using map_of_SomeD by fastforce
  then show "(snd kv, PDict kvs) \<in> measure size"
    by (induction kvs) auto
qed

definition py_str :: "pyval \<Rightarrow> string" where
  "py_str v = (case v of PStr s \<Rightarrow> s | _ \<Rightarrow> py_repr v)"


section \<open>Provider-ID extraction (metadata_enhancer.py)\<close>

text \<open>
  The dictionary every extraction and merge starts from, and the table
  \<^verbatim>\<open>id_mappings\<close> of alias lists and target keys, as both
  \<^verbatim>\<open>_extract_metadata_ids\<close> and \<^verbatim>\<open>_extract_metadata_from_webhook\<close> write them.
\<close>

definition default_metadata :: pydict where
  "default_metadata =
     [(''tmdb_id'', PNone), (''imdb_id'', PNone), (''tvdb_id'', PNone),
      (''douban_id'', PNone), (''bangumi_id'', PNone)]"

definition id_mappings :: "(string list \<times> string) list" where
  "id_mappings =
     [([''Tmdb'', ''TheMovieDb'', ''TMDB''], ''tmdb_id''),
      ([''Imdb'', ''IMDB'', ''IMDb''], ''imdb_id''),
      ([''Tvdb'', ''TheTVDB'', ''TVDB''], ''tvdb_id''),
      ([''DoubanID'', ''Douban'', ''douban''], ''douban_id''),
      ([''Bangumi'', ''bangumi'', ''BangumiID''], ''bangumi_id'')]"

text \<open>
  The inner loop over one alias list:
  \<^verbatim>\<open>if field_name in provider_ids and provider_ids[field_name]: ... = str(...); break\<close>.
  The result is \<open>None\<close> when the loop ends without an assignment.
\<close>

fun first_alias :: "pyval \<Rightarrow> string list \<Rightarrow> py_error + pyval option" where
  "first_alias provider_ids [] = Inr None"
| "first_alias provider_ids (field_name # field_names) =
     (case py_contains field_name provider_ids of
        Inl e \<Rightarrow> Inl e
      | Inr found \<Rightarrow>
          if found then
            (case py_getitem provider_ids field_name of
               Inl e \<Rightarrow> Inl e
             | Inr v \<Rightarrow>
                 if truthy v then Inr (Some (PStr (py_str v)))
                 else first_alias provider_ids field_names)
          else first_alias provider_ids field_names)"

text \<open>The outer loop over the table, updating the metadata dictionary.\<close>

fun extract_loop :: "pyval \<Rightarrow> (string list \<times> string) list \<Rightarrow> pydict \<Rightarrow> py_error + pydict" where
  "extract_loop provider_ids [] metadata_ids = Inr metadata_ids"
| "extract_loop provider_ids ((field_names, target_key) # rest) metadata_ids =
     (case first_alias provider_ids field_names of
        Inl e \<Rightarrow> Inl e
      | Inr None \<Rightarrow> extract_loop provider_ids rest metadata_ids
      | Inr (Some v) \<Rightarrow> extract_loop provider_ids rest (dict_set metadata_ids target_key v))"

definition extract_metadata_ids :: "pyval \<Rightarrow> py_error + pydict" where
  "extract_metadata_ids item_data =
     (case py_get item_data ''ProviderIds'' (PDict []) of
        Inl e \<Rightarrow> Inl e
      | Inr provider_ids \<Rightarrow> extract_loop provider_ids id_mappings default_metadata)"

definition extract_metadata_from_webhook :: "pyval \<Rightarrow> py_error + pydict" where
  "extract_metadata_from_webhook webhook_data =
     (case py_get webhook_data ''Item'' (PDict []) of
        Inl e \<Rightarrow> Inl e
      | Inr item \<Rightarrow>
          (case py_get item ''ProviderIds'' (PDict []) of
             Inl e \<Rightarrow> Inl e
           | Inr provider_ids \<Rightarrow> extract_loop provider_ids id_mappings default_metadata))"

subsection \<open>Merging series-level and item-level metadata\<close>

text \<open>
  \<^verbatim>\<open>for key, value in metadata.items(): if value: merged[key] = value\<close>
\<close>

fun merge_items :: "pydict \<Rightarrow> pydict \<Rightarrow> pydict" where
  "merge_items merged [] = merged"
| "merge_items merged ((key, val) # rest) =
     merge_items (if truthy val then dict_set merged key val else merged) rest"

text \<open>
  \<^verbatim>\<open>_merge_metadata\<close>: either argument may be \<^verbatim>\<open>None\<close>; \<^verbatim>\<open>if item_metadata:\<close> also
  skips an empty dictionary. Item-level values are written first, series-level values
  over them.
\<close>

definition merge_source :: "pydict \<Rightarrow> pydict option \<Rightarrow> pydict" where
  "merge_source merged metadata =
     (case metadata of
        None \<Rightarrow> merged
      | Some d \<Rightarrow> if d \<noteq> [] then merge_items merged (dict_items d) else merged)"

definition merge_metadata :: "pydict option \<Rightarrow> pydict option \<Rightarrow> pydict" where
  "merge_metadata series_metadata item_metadata =
     merge_source (merge_source default_metadata item_metadata) series_metadata"


section \<open>The metadata enhancer and the remote API\<close>

text \<open>
  \<^verbatim>\<open>SafeMetadataEnhancer\<close>: the two configuration strings read from the environment,
  whether an open HTTP client is held, the cached acting user and the \<^verbatim>\<open>enabled\<close> flag.
\<close>

record enhancer =
  emby_url :: "string option"
  emby_api_key :: "string option"
  session :: bool
  user_id :: pyval
  enabled :: bool

definition SafeMetadataEnhancer_init :: "string option \<Rightarrow> string option \<Rightarrow> enhancer" where
  "SafeMetadataEnhancer_init url api_key =
     \<lparr>emby_url = url, emby_api_key = api_key, session = False, user_id = PNone,
      enabled = (case url of None \<Rightarrow> False | Some u \<Rightarrow> u \<noteq> [])\<rparr>"

text \<open>
  A request is kept symbolic: the configured base, the path below it and the API key
  appended when one is configured (\<^verbatim>\<open>_build_url\<close>).
\<close>

record request =
  req_base :: "string option"
  req_path :: string
  req_api_key :: "string option"

definition build_url :: "enhancer \<Rightarrow> string \<Rightarrow> request" where
  "build_url e endpoint =
     \<lparr>req_base = emby_url e, req_path = ''/emby/'' @ endpoint,
      req_api_key = (case emby_api_key e of
                       None \<Rightarrow> None
                     | Some k \<Rightarrow> if k \<noteq> [] then Some k else None)\<rparr>"

text \<open>
  What one \<^verbatim>\<open>session.get(url)\<close> can do: raise a timeout, raise another transport error,
  or deliver a response with a status code and a body; the body is \<open>None\<close> when
  \<^verbatim>\<open>response.json()\<close> raises on it. The remote side is any function from the number of
  requests issued so far and the request to such an outcome, together with whether
  the n-th construction of an HTTP client succeeds.
\<close>

datatype outcome = Timeout | TransportError | Response nat "pyval option"

record remote =
  respond :: "nat \<Rightarrow> request \<Rightarrow> outcome"
  client_opens :: "nat \<Rightarrow> bool"

text \<open>The network activity so far: clients constructed and requests issued.\<close>

record net =
  clients_created :: nat
  requests :: "request list"

type_synonym enh_state = "enhancer \<times> net"

definition session_get :: "remote \<Rightarrow> request \<Rightarrow> net \<Rightarrow> outcome \<times> net" where
  "session_get r req n = (respond r (length (requests n)) req, n\<lparr>requests := requests n @ [req]\<rparr>)"

text \<open>\<^verbatim>\<open>_get_session\<close>: the result tells whether a client is returned.\<close>

definition get_session :: "remote \<Rightarrow> enh_state \<Rightarrow> (py_error + bool) \<times> enh_state" where
  "get_session r st =
     (case st of (e, n) \<Rightarrow>
        if \<not> enabled e then (Inr False, st)
        else if \<not> session e then
          (if client_opens r (clients_created n)
           then (Inr True, (e\<lparr>session := True\<rparr>, n\<lparr>clients_created := Suc (clients_created n)\<rparr>))
           else (Inl ClientError, st))
        else (Inr True, st))"

text \<open>\<^verbatim>\<open>for user in users\<close> and \<^verbatim>\<open>users[0]\<close> on an arbitrary value.\<close>

fun py_iter :: "pyval \<Rightarrow> py_error + pyval list" where
  "py_iter (PList xs) = Inr xs"
| "py_iter (PDict d) = Inr (map (\<lambda>kv. PStr (fst kv)) (dict_items d))"
| "py_iter (PStr s) = Inr (map (\<lambda>c. PStr [c]) s)"
| "py_iter _ = Inl TypeError"

fun py_first :: "pyval \<Rightarrow> py_error + pyval" where
  "py_first (PList []) = Inl IndexError"
| "py_first (PList (x # xs)) = Inr x"
| "py_first (PStr []) = Inl IndexError"
| "py_first (PStr (c # cs)) = Inr (PStr [c])"
| "py_first (PDict d) = Inl KeyError"
| "py_first _ = Inl TypeError"

text \<open>The loop that prefers an administrator; \<open>None\<close> when it ends without one.\<close>

fun find_admin :: "pyval list \<Rightarrow> py_error + pyval option" where
  "find_admin [] = Inr None"
| "find_admin (u # us) =
     (case py_get u ''Policy'' (PDict []) of
        Inl e \<Rightarrow> Inl e
      | Inr policy \<Rightarrow>
          (case py_get policy ''IsAdministrator'' (PBool False) of
             Inl e \<Rightarrow> Inl e
           | Inr is_admin \<Rightarrow>
               if truthy is_admin then
                 (case py_getitem u ''Id'' of Inl e \<Rightarrow> Inl e | Inr i \<Rightarrow> Inr (Some i))
               else find_admin us))"

definition select_user :: "pyval \<Rightarrow> py_error + pyval" where
  "select_user users =
     (case py_iter users of
        Inl e \<Rightarrow> Inl e
      | Inr us \<Rightarrow>
          (case find_admin us of
             Inl e \<Rightarrow> Inl e
           | Inr (Some i) \<Rightarrow> Inr i
           | Inr None \<Rightarrow>
               (case py_first users of Inl e \<Rightarrow> Inl e | Inr u \<Rightarrow> py_getitem u ''Id'')))"

text \<open>
  \<^verbatim>\<open>_get_user_id\<close>. The call of \<^verbatim>\<open>_get_session\<close> stands before the \<^verbatim>\<open>try\<close>, so its
  exception leaves the method; everything after it is caught and gives \<^verbatim>\<open>None\<close>.
\<close>

definition get_user_id :: "remote \<Rightarrow> enh_state \<Rightarrow> (py_error + pyval) \<times> enh_state" where
  "get_user_id r st =
     (if truthy (user_id (fst st)) then (Inr (user_id (fst st)), st)
      else
        (case get_session r st of
           (Inl err, st1) \<Rightarrow> (Inl err, st1)
         | (Inr have_session, (e1, n1)) \<Rightarrow>
             if \<not> have_session then (Inr PNone, (e1, n1))
             else
               (case session_get r (build_url e1 ''Users'') n1 of
                  (Response code body, n2) \<Rightarrow>
                    if code = 200 then
                      (case body of
                         None \<Rightarrow> (Inr PNone, (e1, n2))
                       | Some users \<Rightarrow>
                           if truthy users then
                             (case select_user users of
                                Inl _ \<Rightarrow> (Inr PNone, (e1, n2))
                              | Inr i \<Rightarrow> (Inr i, (e1\<lparr>user_id := i\<rparr>, n2)))
                           else (Inr PNone, (e1, n2)))
                    else (Inr PNone, (e1, n2))
                | (_, n2) \<Rightarrow> (Inr PNone, (e1, n2)))))"

text \<open>
  \<^verbatim>\<open>_fetch_item_metadata\<close>: \<^verbatim>\<open>None\<close> without a client or an acting user, on a status
  other than 200 and on every exception of the request, of \<^verbatim>\<open>response.json()\<close> and of
  the extraction.
\<close>

definition fetch_item_metadata ::
  "remote \<Rightarrow> pyval \<Rightarrow> enh_state \<Rightarrow> (py_error + pydict option) \<times> enh_state" where
  "fetch_item_metadata r item_id st =
     (case get_session r st of
        (Inl err, st1) \<Rightarrow> (Inl err, st1)
      | (Inr have_session, st1) \<Rightarrow>
          if \<not> have_session then (Inr None, st1)
          else
            (case get_user_id r st1 of
               (Inl err, st2) \<Rightarrow> (Inl err, st2)
             | (Inr uid, (e2, n2)) \<Rightarrow>
                 if \<not> truthy uid then (Inr None, (e2, n2))
                 else
                   (case session_get r
                           (build_url e2 (''Users/'' @ py_str uid @ ''/Items/'' @ py_str item_id)) n2 of
                      (Response code body, n3) \<Rightarrow>
                        if code = 200 then
                          (case body of
                             None \<Rightarrow> (Inr None, (e2, n3))
                           | Some data \<Rightarrow>
                               (case extract_metadata_ids data of
                                  Inl _ \<Rightarrow> (Inr None, (e2, n3))
                                | Inr md \<Rightarrow> (Inr (Some md), (e2, n3))))
                        else (Inr None, (e2, n3))
                    | (_, n3) \<Rightarrow> (Inr None, (e2, n3)))))"

text \<open>
  The body of the \<^verbatim>\<open>try\<close> in \<^verbatim>\<open>enhance_metadata\<close>: the series is fetched first when a
  series ID is given, then the item, then both are merged.
\<close>

definition enhance_metadata_try ::
  "remote \<Rightarrow> pyval \<Rightarrow> pyval \<Rightarrow> enh_state \<Rightarrow> (py_error + pydict) \<times> enh_state" where
  "enhance_metadata_try r item_id series_id st =
     (case (if truthy series_id then fetch_item_metadata r series_id st else (Inr None, st)) of
        (Inl err, st1) \<Rightarrow> (Inl err, st1)
      | (Inr series_metadata, st1) \<Rightarrow>
          (case fetch_item_metadata r item_id st1 of
             (Inl err, st2) \<Rightarrow> (Inl err, st2)
           | (Inr item_metadata, st2) \<Rightarrow>
               (let merged_metadata = merge_metadata series_metadata item_metadata
                in if any_values merged_metadata then (Inr merged_metadata, st2)
                   else (Inr default_metadata, st2))))"

text \<open>
  \<^verbatim>\<open>enhance_metadata\<close>: the default at once when the enhancer is disabled, and
  \<^verbatim>\<open>except Exception\<close> around the rest.
\<close>

definition enhance_metadata ::
  "remote \<Rightarrow> pyval \<Rightarrow> pyval \<Rightarrow> enh_state \<Rightarrow> (py_error + pydict) \<times> enh_state" where
  "enhance_metadata r item_id series_id st =
     (if \<not> enabled (fst st) then (Inr default_metadata, st)
      else
        (case enhance_metadata_try r item_id series_id st of
           (Inl _, st1) \<Rightarrow> (Inr default_metadata, st1)
         | (Inr md, st1) \<Rightarrow> (Inr md, st1)))"

subsection \<open>The global instance and the convenience function\<close>

record environ =
  EMBY_SERVER_URL :: "string option"
  EMBY_API_KEY :: "string option"

text \<open>The module's state: the global \<^verbatim>\<open>_metadata_enhancer\<close> and the network activity.\<close>

type_synonym world = "enhancer option \<times> net"

definition get_metadata_enhancer :: "environ \<Rightarrow> enhancer option \<Rightarrow> enhancer" where
  "get_metadata_enhancer ev inst =
     (case inst of
        None \<Rightarrow> SafeMetadataEnhancer_init (EMBY_SERVER_URL ev) (EMBY_API_KEY ev)
      | Some e \<Rightarrow> e)"

text \<open>
  \<^verbatim>\<open>enhance_webhook_metadata\<close>: when the API result holds no value and the webhook
  data is truthy, the provider IDs are extracted from the webhook data; that
  extraction is not inside any \<^verbatim>\<open>try\<close>.
\<close>

definition enhance_webhook_metadata ::
  "environ \<Rightarrow> remote \<Rightarrow> pyval \<Rightarrow> pyval \<Rightarrow> pyval \<Rightarrow> world \<Rightarrow> (py_error + pydict) \<times> world" where
  "enhance_webhook_metadata ev r item_id series_id webhook_data w =
     (case enhance_metadata r item_id series_id (get_metadata_enhancer ev (fst w), snd w) of
        (Inl err, (e1, n1)) \<Rightarrow> (Inl err, (Some e1, n1))
      | (Inr enhanced_metadata, (e1, n1)) \<Rightarrow>
          if \<not> any_values enhanced_metadata \<and> truthy webhook_data then
            (case extract_metadata_from_webhook webhook_data of
               Inl err \<Rightarrow> (Inl err, (Some e1, n1))
             | Inr webhook_metadata \<Rightarrow>
                 if any_values webhook_metadata then (Inr webhook_metadata, (Some e1, n1))
                 else (Inr enhanced_metadata, (Some e1, n1)))
          else (Inr enhanced_metadata, (Some e1, n1)))"


section \<open>The webhook handler (emby.py)\<close>

text \<open>
  The format specification \<^verbatim>\<open>:02d\<close> of the f-strings: an integer (or a boolean, which
  is one) is printed with at least two characters, zero-padded after the sign; a
  float or a string raises \<^verbatim>\<open>ValueError\<close>, every other value \<^verbatim>\<open>TypeError\<close>.
\<close>

definition pad2 :: "int \<Rightarrow> string" where
  "pad2 i = (if 0 \<le> i \<and> i < 10 then CHR ''0'' # str_int i else str_int i)"

fun format_02d :: "pyval \<Rightarrow> py_error + string" where
  "format_02d (PInt i) = Inr (pad2 i)"
| "format_02d (PBool b) = Inr (pad2 (if b then 1 else 0))"
| "format_02d (PFloat f) = Inl ValueError"
| "format_02d (PStr s) = Inl ValueError"
| "format_02d _ = Inl TypeError"

text \<open>What \<^verbatim>\<open>handle\<close> has resolved from the payload when it turns to the enhancer.\<close>

record identity =
  r_event_type :: pyval
  r_item_id :: pyval
  r_series_id :: pyval
  r_year :: pyval
  r_basic_tmdb_id :: pyval
  r_basic_imdb_id :: pyval
  r_basic_tvdb_id :: pyval
  r_basic_douban_id :: pyval
  r_basic_bangumi_id :: pyval
  r_task_title :: string
  r_search_keyword :: pyval
  r_media_type :: string
  r_season_number :: pyval
  r_episode_number :: pyval
  r_anime_title :: pyval

text \<open>
  The handler leaves early either by a plain \<^verbatim>\<open>return\<close> or by an exception that
  nothing catches.
\<close>

datatype early = Ignored | Raised py_error

definition try_bind :: "py_error + 'a \<Rightarrow> ('a \<Rightarrow> early + 'b) \<Rightarrow> early + 'b" where
  "try_bind m f = (case m of Inl e \<Rightarrow> Inl (Raised e) | Inr x \<Rightarrow> f x)"

definition accepted_events :: "string list" where
  "accepted_events = [''item.add'', ''library.new'', ''playback.start'']"

definition accepted_types :: "string list" where
  "accepted_types = [''Episode'', ''Movie'']"

text \<open>\<^verbatim>\<open>v in [s1, s2, ...]\<close> for a list of string literals.\<close>

definition py_in :: "pyval \<Rightarrow> string list \<Rightarrow> bool" where
  "py_in v ss = (v \<in> set (map PStr ss))"

text \<open>The prefix of the task title, \<^verbatim>\<open>Webhook (emby) search: \<close> in the source's UTF-8 text.\<close>

definition task_title_prefix :: string where
  "task_title_prefix =
     ''Webhook'' @ [CHR 0xEF, CHR 0xBC, CHR 0x88] @ ''emby'' @ [CHR 0xEF, CHR 0xBC, CHR 0x89]
       @ [CHR 0xE6, CHR 0x90, CHR 0x9C, CHR 0xE7, CHR 0xB4, CHR 0xA2] @ '': ''"

text \<open>The branch for \<^verbatim>\<open>item_type == "Episode"\<close> up to the call of the enhancer.\<close>

definition identify_episode ::
  "pyval \<Rightarrow> pyval \<Rightarrow> pyval \<Rightarrow> pyval \<Rightarrow> (pyval \<times> pyval \<times> pyval \<times> pyval \<times> pyval) \<Rightarrow> early + identity" where
  "identify_episode item ev_type it_id yr basic =
     try_bind (py_get item ''SeriesName'' PNone) (\<lambda>series_title.
     try_bind (py_get item ''SeriesId'' PNone) (\<lambda>ser_id.
     try_bind (py_get item ''ParentIndexNumber'' PNone) (\<lambda>season_no.
     try_bind (py_get item ''IndexNumber'' PNone) (\<lambda>episode_no.
       if \<not> (truthy series_title \<and> season_no \<noteq> PNone \<and> episode_no \<noteq> PNone) then Inl Ignored
       else
         try_bind (format_02d season_no) (\<lambda>s2.
         try_bind (format_02d episode_no) (\<lambda>e2.
           (case basic of (b_tmdb, b_imdb, b_tvdb, b_douban, b_bangumi) \<Rightarrow>
              Inr \<lparr>r_event_type = ev_type, r_item_id = it_id, r_series_id = ser_id, r_year = yr,
                   r_basic_tmdb_id = b_tmdb, r_basic_imdb_id = b_imdb, r_basic_tvdb_id = b_tvdb,
                   r_basic_douban_id = b_douban, r_basic_bangumi_id = b_bangumi,
                   r_task_title = task_title_prefix @ py_str series_title @ '' - S'' @ s2 @ ''E'' @ e2,
                   r_search_keyword = PStr (py_str series_title @ '' S'' @ s2 @ ''E'' @ e2),
                   r_media_type = ''tv_series'',
                   r_season_number = season_no, r_episode_number = episode_no,
                   r_anime_title = series_title\<rparr>)))))))"

text \<open>The branch for \<^verbatim>\<open>item_type == "Movie"\<close>: a movie is handled as season 1, episode 1.\<close>

definition identify_movie ::
  "pyval \<Rightarrow> pyval \<Rightarrow> pyval \<Rightarrow> pyval \<Rightarrow> (pyval \<times> pyval \<times> pyval \<times> pyval \<times> pyval) \<Rightarrow> early + identity" where
  "identify_movie item ev_type it_id yr basic =
     try_bind (py_get item ''Name'' PNone) (\<lambda>movie_title.
       if \<not> truthy movie_title then Inl Ignored
       else
         (case basic of (b_tmdb, b_imdb, b_tvdb, b_douban, b_bangumi) \<Rightarrow>
            Inr \<lparr>r_event_type = ev_type, r_item_id = it_id, r_series_id = PNone, r_year = yr,
                 r_basic_tmdb_id = b_tmdb, r_basic_imdb_id = b_imdb, r_basic_tvdb_id = b_tvdb,
                 r_basic_douban_id = b_douban, r_basic_bangumi_id = b_bangumi,
                 r_task_title = task_title_prefix @ py_str movie_title,
                 r_search_keyword = movie_title,
                 r_media_type = ''movie'',
                 r_season_number = PInt 1, r_episode_number = PInt 1,
                 r_anime_title = movie_title\<rparr>))"

text \<open>
  \<^verbatim>\<open>handle\<close> from the parsed payload to the call of the enhancer: the event filter,
  the item, the media type, the basic provider IDs read under one key each, then
  the branch of the media type.
\<close>

definition identify :: "pyval \<Rightarrow> early + identity" where
  "identify payload =
     try_bind (py_get payload ''Event'' PNone) (\<lambda>ev_type.
       if \<not> py_in ev_type accepted_events then Inl Ignored
       else
         try_bind (py_get payload ''Item'' (PDict [])) (\<lambda>item.
           if \<not> truthy item then Inl Ignored
           else
             try_bind (py_get item ''Type'' PNone) (\<lambda>item_type.
               if \<not> py_in item_type accepted_types then Inl Ignored
               else
                 try_bind (py_get item ''Id'' PNone) (\<lambda>it_id.
                 try_bind (py_get item ''ProductionYear'' PNone) (\<lambda>yr.
                 try_bind (py_get item ''ProviderIds'' (PDict [])) (\<lambda>provider_ids.
                 try_bind (py_get provider_ids ''Tmdb'' PNone) (\<lambda>b_tmdb.
                 try_bind (py_get provider_ids ''IMDB'' PNone) (\<lambda>b_imdb.
                 try_bind (py_get provider_ids ''Tvdb'' PNone) (\<lambda>b_tvdb.
                 try_bind (py_get provider_ids ''DoubanID'' PNone) (\<lambda>b_douban.
                 try_bind (py_get provider_ids ''Bangumi'' PNone) (\<lambda>b_bangumi.
                   if item_type = PStr ''Episode''
                   then identify_episode item ev_type it_id yr (b_tmdb, b_imdb, b_tvdb, b_douban, b_bangumi)
                   else identify_movie item ev_type it_id yr (b_tmdb, b_imdb, b_tvdb, b_douban, b_bangumi))))))))))))"

subsection \<open>Merging and dispatch\<close>

text \<open>
  \<^verbatim>\<open>enhanced_metadata.get(key) or basic\<close>, and what the task receives:
  \<^verbatim>\<open>str(final) if final else None\<close>.
\<close>

definition final_id :: "pydict \<Rightarrow> string \<Rightarrow> pyval \<Rightarrow> pyval" where
  "final_id enhanced_metadata key basic = py_or (dict_get enhanced_metadata key PNone) basic"

definition str_or_none :: "pyval \<Rightarrow> pyval" where
  "str_or_none v = (if truthy v then PStr (py_str v) else PNone)"

text \<open>The arguments of the dispatched task with the title and the unique key of the submission.\<close>

record submission =
  animeTitle :: pyval
  mediaType :: string
  season :: pyval
  currentEpisodeIndex :: pyval
  year :: pyval
  searchKeyword :: pyval
  doubanId :: pyval
  tmdbId :: pyval
  imdbId :: pyval
  tvdbId :: pyval
  bangumiId :: pyval
  webhookSource :: string
  eventType :: pyval
  task_title :: string
  unique_key :: string

definition make_unique_key :: "pyval \<Rightarrow> pyval \<Rightarrow> pyval \<Rightarrow> string" where
  "make_unique_key a_title season_no episode_no =
     ''webhook-search-'' @ py_str a_title @ ''-S'' @ py_str season_no @ ''-E'' @ py_str episode_no"

definition dispatch :: "identity \<Rightarrow> pydict \<Rightarrow> submission" where
  "dispatch idn enhanced_metadata =
     \<lparr>animeTitle = r_anime_title idn,
      mediaType = r_media_type idn,
      season = r_season_number idn,
      currentEpisodeIndex = r_episode_number idn,
      year = r_year idn,
      searchKeyword = r_search_keyword idn,
      doubanId = str_or_none (final_id enhanced_metadata ''douban_id'' (r_basic_douban_id idn)),
      tmdbId = str_or_none (final_id enhanced_metadata ''tmdb_id'' (r_basic_tmdb_id idn)),
      imdbId = str_or_none (final_id enhanced_metadata ''imdb_id'' (r_basic_imdb_id idn)),
      tvdbId = str_or_none (final_id enhanced_metadata ''tvdb_id'' (r_basic_tvdb_id idn)),
      bangumiId = str_or_none (final_id enhanced_metadata ''bangumi_id'' (r_basic_bangumi_id idn)),
      webhookSource = ''emby'',
      eventType = r_event_type idn,
      task_title = r_task_title idn,
      unique_key = make_unique_key (r_anime_title idn) (r_season_number idn) (r_episode_number idn)\<rparr>"

text \<open>
  The outcomes of \<^verbatim>\<open>handle\<close>: the 400 response for a body that is not JSON, an
  exception nothing catches (the sender sees a server error), a return without a
  task, and a task handed to \<^verbatim>\<open>submit_task\<close>.
\<close>

datatype handle_result =
    Http400
  | Unhandled py_error
  | NoDispatch
  | Submitted submission

text \<open>
  \<^verbatim>\<open>handle\<close>: the body is \<open>None\<close> when \<^verbatim>\<open>request.json()\<close> raises. The call of the
  enhancer stands in a \<^verbatim>\<open>try\<close> whose \<^verbatim>\<open>except\<close> takes the all-\<^verbatim>\<open>None\<close> dictionary.
\<close>

definition enhance_or_default :: "environ \<Rightarrow> remote \<Rightarrow> identity \<Rightarrow> pyval \<Rightarrow> world \<Rightarrow> pydict \<times> world" where
  "enhance_or_default ev r idn payload w =
     (case enhance_webhook_metadata ev r (r_item_id idn) (r_series_id idn) payload w of
        (Inl _, w1) \<Rightarrow> (default_metadata, w1)
      | (Inr enhanced_metadata, w1) \<Rightarrow> (enhanced_metadata, w1))"

definition handle :: "environ \<Rightarrow> remote \<Rightarrow> pyval option \<Rightarrow> world \<Rightarrow> handle_result \<times> world" where
  "handle ev r body w =
     (case body of
        None \<Rightarrow> (Http400, w)
      | Some payload \<Rightarrow>
          (case identify payload of
             Inl Ignored \<Rightarrow> (NoDispatch, w)
           | Inl (Raised e) \<Rightarrow> (Unhandled e, w)
           | Inr idn \<Rightarrow>
               (case enhance_or_default ev r idn payload w of
                  (enhanced_metadata, w1) \<Rightarrow> (Submitted (dispatch idn enhanced_metadata), w1))))"

section \<open>Provider kinds and the vocabulary of the properties\<close>

text \<open>
  The five provider kinds with, for each, the key of the metadata dictionary, the
  alias list of \<^verbatim>\<open>id_mappings\<close>, the one key \<^verbatim>\<open>handle\<close> reads for the basic ID, the
  basic ID in what \<^verbatim>\<open>handle\<close> resolved and the ID in the submitted task.
\<close>

datatype provider_kind = TMDB | IMDb | TVDB | Douban | Bangumi

fun metadata_key :: "provider_kind \<Rightarrow> string" where
  "metadata_key TMDB = ''tmdb_id''"
| "metadata_key IMDb = ''imdb_id''"
| "metadata_key TVDB = ''tvdb_id''"
| "metadata_key Douban = ''douban_id''"
| "metadata_key Bangumi = ''bangumi_id''"

fun alias_list :: "provider_kind \<Rightarrow> string list" where
  "alias_list TMDB = [''Tmdb'', ''TheMovieDb'', ''TMDB'']"
| "alias_list IMDb = [''Imdb'', ''IMDB'', ''IMDb'']"
| "alias_list TVDB = [''Tvdb'', ''TheTVDB'', ''TVDB'']"
| "alias_list Douban = [''DoubanID'', ''Douban'', ''douban'']"
| "alias_list Bangumi = [''Bangumi'', ''bangumi'', ''BangumiID'']"

fun webhook_key :: "provider_kind \<Rightarrow> string" where
  "webhook_key TMDB = ''Tmdb''"
| "webhook_key IMDb = ''IMDB''"
| "webhook_key TVDB = ''Tvdb''"
| "webhook_key Douban = ''DoubanID''"
| "webhook_key Bangumi = ''Bangumi''"

fun basic_id :: "provider_kind \<Rightarrow> identity \<Rightarrow> pyval" where
  "basic_id TMDB idn = r_basic_tmdb_id idn"
| "basic_id IMDb idn = r_basic_imdb_id idn"
| "basic_id TVDB idn = r_basic_tvdb_id idn"
| "basic_id Douban idn = r_basic_douban_id idn"
| "basic_id Bangumi idn = r_basic_bangumi_id idn"

fun task_id :: "provider_kind \<Rightarrow> submission \<Rightarrow> pyval" where
  "task_id TMDB s = tmdbId s"
| "task_id IMDb s = imdbId s"
| "task_id TVDB s = tvdbId s"
| "task_id Douban s = doubanId s"
| "task_id Bangumi s = bangumiId s"

text \<open>
  Alias resolution in the specification's words: the aliases are tried in order and
  the first one holding a value the code takes as present (a truthy one) wins; the
  result is that value as a string, and absent when no alias holds one.
\<close>

definition resolve_aliases :: "pydict \<Rightarrow> string list \<Rightarrow> pyval" where
  "resolve_aliases d names =
     (case find (\<lambda>a. truthy (dict_get d a PNone)) names of
        None \<Rightarrow> PNone
      | Some a \<Rightarrow> PStr (py_str (dict_get d a PNone)))"

text \<open>
  The identifier map of a webhook payload, when the payload is an object whose
  \<^verbatim>\<open>Item\<close> is an object or missing and whose \<^verbatim>\<open>ProviderIds\<close> is an object or missing.
\<close>

definition webhook_provider_ids :: "pyval \<Rightarrow> pydict option" where
  "webhook_provider_ids webhook_data =
     (case webhook_data of
        PDict p \<Rightarrow>
          (case dict_get p ''Item'' (PDict []) of
             PDict it \<Rightarrow>
               (case dict_get it ''ProviderIds'' (PDict []) of
                  PDict d \<Rightarrow> Some d
                | _ \<Rightarrow> None)
           | _ \<Rightarrow> None)
      | _ \<Rightarrow> None)"


text \<open>
  A value is present when it is not \<^verbatim>\<open>None\<close>. The code's own test is \<open>truthy\<close>, which
  also rejects the empty string, zero, \<^verbatim>\<open>False\<close> and the empty containers.
\<close>

definition present :: "pyval \<Rightarrow> bool" where
  "present v = (v \<noteq> PNone)"

text \<open>
  The value of an optional metadata dictionary under a key, as \<^verbatim>\<open>.get(key)\<close> reads it
  when there is a dictionary: \<^verbatim>\<open>None\<close> without a dictionary or without the key.
\<close>

fun md_get :: "pydict option \<Rightarrow> string \<Rightarrow> pyval" where
  "md_get None k = PNone"
| "md_get (Some d) k = dict_get d k PNone"

text \<open>
  A provider ID as the extraction writes it, \<^verbatim>\<open>None\<close> or a non-empty string, and an
  optional metadata dictionary all of whose values are such.
\<close>

definition id_value :: "pyval \<Rightarrow> bool" where
  "id_value v = (case v of PNone \<Rightarrow> True | PStr s \<Rightarrow> s \<noteq> [] | _ \<Rightarrow> False)"

definition id_values :: "pydict option \<Rightarrow> bool" where
  "id_values metadata =
     (case metadata of
        None \<Rightarrow> True
      | Some d \<Rightarrow> list_all (\<lambda>kv. id_value (snd kv)) (dict_items d))"

text \<open>
  The three kinds of irrelevant payload, for a payload that is an object: the event is
  not an accepted one; the item is missing or empty, or it is an object whose type is
  neither Episode nor Movie; the item is an Episode whose identifier map is an object or
  missing and that lacks the series title, the season number or the episode number.
\<close>

definition event_not_accepted :: "pydict \<Rightarrow> bool" where
  "event_not_accepted p = (\<not> py_in (dict_get p ''Event'' PNone) accepted_events)"

definition item_type_not_accepted :: "pydict \<Rightarrow> bool" where
  "item_type_not_accepted p =
     (case dict_get p ''Item'' (PDict []) of
        PDict it \<Rightarrow> \<not> py_in (dict_get it ''Type'' PNone) accepted_types
      | v \<Rightarrow> \<not> truthy v)"

definition episode_missing_fields :: "pydict \<Rightarrow> bool" where
  "episode_missing_fields p =
     (case dict_get p ''Item'' (PDict []) of
        PDict it \<Rightarrow>
          dict_get it ''Type'' PNone = PStr ''Episode'' \<and>
          (case dict_get it ''ProviderIds'' (PDict []) of PDict d \<Rightarrow> True | _ \<Rightarrow> False) \<and>
          (\<not> truthy (dict_get it ''SeriesName'' PNone) \<or>
           dict_get it ''ParentIndexNumber'' PNone = PNone \<or>
           dict_get it ''IndexNumber'' PNone = PNone)
      | _ \<Rightarrow> False)"

section \<open>Properties\<close>

subsection \<open>Dictionaries\<close>

lemma dict_get_dict_set:
  "dict_get (dict_set d k v) k' dflt = (if k' = k then v else dict_get d k' dflt)"
  by (simp add: dict_get_def dict_set_def update_conv')

lemma dict_get_default_metadata: "dict_get default_metadata k PNone = PNone"
  by (simp add: dict_get_def default_metadata_def)

subsection \<open>The disabled enhancer\<close>

lemma enabled_init:
  "enabled (SafeMetadataEnhancer_init url api_key) = (url \<noteq> None \<and> url \<noteq> Some [])"
  by (cases url) (simp_all add: SafeMetadataEnhancer_init_def)

text \<open>
  Claim C6. When \<^verbatim>\<open>EMBY_SERVER_URL\<close> is unset or empty, the enhancer built from it
  answers every \<^verbatim>\<open>enhance_metadata\<close> call, whatever the item ID, the series ID and the
  remote side, with the all-\<^verbatim>\<open>None\<close> dictionary, and it leaves both the enhancer and
  the network activity as they were: no client is constructed and no request is issued.
  The same holds when the call comes through \<^verbatim>\<open>enhance_webhook_metadata\<close> and the global
  instance is built on the way.
\<close>

theorem disabled_enhancer_returns_default_without_io:
  assumes "url = None \<or> url = Some []"
  shows "enhance_metadata r item_id series_id (SafeMetadataEnhancer_init url api_key, n)
           = (Inr default_metadata, (SafeMetadataEnhancer_init url api_key, n))
         \<and> (\<forall>k. dict_get default_metadata k PNone = PNone)
         \<and> (EMBY_SERVER_URL ev = url \<longrightarrow>
               snd (enhance_webhook_metadata ev r item_id series_id webhook_data (None, n))
                 = (Some (SafeMetadataEnhancer_init url (EMBY_API_KEY ev)), n))"
proof -
  have a: "enhance_metadata r item_id series_id (SafeMetadataEnhancer_init url k, n)
           = (Inr default_metadata, (SafeMetadataEnhancer_init url k, n))" for k
    using assms by (auto simp: enhance_metadata_def enabled_init)
  have "EMBY_SERVER_URL ev = url \<longrightarrow>
               snd (enhance_webhook_metadata ev r item_id series_id webhook_data (None, n))
                 = (Some (SafeMetadataEnhancer_init url (EMBY_API_KEY ev)), n)"
    by (auto simp: enhance_webhook_metadata_def get_metadata_enhancer_def a split: sum.splits)
  then show ?thesis
    using a by (simp add: dict_get_default_metadata)
qed

theorem disabled_enhancer_witness:
  "enhance_metadata \<lparr>respond = (\<lambda>n req. Response 200 None), client_opens = (\<lambda>n. True)\<rparr>
       (PStr ''42'') (PStr ''7'')
       (SafeMetadataEnhancer_init None None, \<lparr>clients_created = 0, requests = []\<rparr>)
     = (Inr default_metadata,
        (SafeMetadataEnhancer_init None None, \<lparr>clients_created = 0, requests = []\<rparr>))
   \<and> snd (enhance_webhook_metadata \<lparr>EMBY_SERVER_URL = None, EMBY_API_KEY = Some ''key''\<rparr>
            \<lparr>respond = (\<lambda>n req. Response 200 None), client_opens = (\<lambda>n. True)\<rparr>
            (PStr ''42'') (PStr ''7'') PNone
            (None, \<lparr>clients_created = 0, requests = []\<rparr>))
     = (Some (SafeMetadataEnhancer_init None (Some ''key'')),
        \<lparr>clients_created = 0, requests = []\<rparr>)"
  using disabled_enhancer_returns_default_without_io
          [where url = None and ev = "\<lparr>EMBY_SERVER_URL = None, EMBY_API_KEY = Some ''key''\<rparr>"]
  by simp

subsection \<open>What the handler resolves\<close>

lemma try_bind_Inr: "try_bind m f = Inr y \<longleftrightarrow> (\<exists>x. m = Inr x \<and> f x = Inr y)"
  by (cases m) (simp_all add: try_bind_def)

lemma py_get_Inr: "py_get x k dflt = Inr v \<longleftrightarrow> (\<exists>d. x = PDict d \<and> v = dict_get d k dflt)"
  by (cases x) auto

lemma py_in_accepted_types:
  "py_in v accepted_types \<longleftrightarrow> v = PStr ''Episode'' \<or> v = PStr ''Movie''"
  by (auto simp: py_in_def accepted_types_def)

lemma identify_episode_Inr:
  assumes "identify_episode (PDict it) ev_type it_id yr basic = Inr idn"
  shows "r_anime_title idn = dict_get it ''SeriesName'' PNone
       \<and> r_season_number idn = dict_get it ''ParentIndexNumber'' PNone
       \<and> r_episode_number idn = dict_get it ''IndexNumber'' PNone
       \<and> r_series_id idn = dict_get it ''SeriesId'' PNone
       \<and> truthy (r_anime_title idn) \<and> r_season_number idn \<noteq> PNone \<and> r_episode_number idn \<noteq> PNone
       \<and> r_event_type idn = ev_type \<and> r_item_id idn = it_id \<and> r_year idn = yr
       \<and> (r_basic_tmdb_id idn, r_basic_imdb_id idn, r_basic_tvdb_id idn, r_basic_douban_id idn,
           r_basic_bangumi_id idn) = basic"
  using assms
  by (cases basic) (auto simp: identify_episode_def try_bind_Inr split: if_splits)

lemma identify_movie_Inr:
  assumes "identify_movie (PDict it) ev_type it_id yr basic = Inr idn"
  shows "r_anime_title idn = dict_get it ''Name'' PNone
       \<and> r_season_number idn = PInt 1 \<and> r_episode_number idn = PInt 1
       \<and> r_series_id idn = PNone \<and> truthy (r_anime_title idn)
       \<and> r_event_type idn = ev_type \<and> r_item_id idn = it_id \<and> r_year idn = yr
       \<and> (r_basic_tmdb_id idn, r_basic_imdb_id idn, r_basic_tvdb_id idn, r_basic_douban_id idn,
           r_basic_bangumi_id idn) = basic"
  using assms
  by (cases basic) (auto simp: identify_movie_def try_bind_Inr split: if_splits)

text \<open>What a payload looks like when \<open>identify\<close> gets as far as the enhancer.\<close>

lemma identify_Inr:
  assumes "identify payload = Inr idn"
  shows "\<exists>p it d. payload = PDict p \<and> dict_get p ''Item'' (PDict []) = PDict it
           \<and> dict_get it ''ProviderIds'' (PDict []) = PDict d
           \<and> py_in (dict_get p ''Event'' PNone) accepted_events
           \<and> (\<forall>k. basic_id k idn = dict_get d (webhook_key k) PNone)
           \<and> (if dict_get it ''Type'' PNone = PStr ''Episode''
               then identify_episode (PDict it) (dict_get p ''Event'' PNone) (dict_get it ''Id'' PNone)
                      (dict_get it ''ProductionYear'' PNone)
                      (r_basic_tmdb_id idn, r_basic_imdb_id idn, r_basic_tvdb_id idn,
                       r_basic_douban_id idn, r_basic_bangumi_id idn) = Inr idn
               else dict_get it ''Type'' PNone = PStr ''Movie'' \<and>
                    identify_movie (PDict it) (dict_get p ''Event'' PNone) (dict_get it ''Id'' PNone)
                      (dict_get it ''ProductionYear'' PNone)
                      (r_basic_tmdb_id idn, r_basic_imdb_id idn, r_basic_tvdb_id idn,
                       r_basic_douban_id idn, r_basic_bangumi_id idn) = Inr idn)"
proof -
  from assms obtain p where p: "payload = PDict p"
    by (auto simp: identify_def try_bind_Inr py_get_Inr)
  from assms p have ev: "py_in (dict_get p ''Event'' PNone) accepted_events"
    by (auto simp: identify_def try_bind_Inr split: if_splits)
  from assms p ev obtain it where it: "dict_get p ''Item'' (PDict []) = PDict it"
    by (auto simp: identify_def try_bind_Inr py_get_Inr split: if_splits)
  from assms p ev it have ty: "py_in (dict_get it ''Type'' PNone) accepted_types"
    by (auto simp: identify_def try_bind_Inr split: if_splits)
  from assms p ev it ty obtain d where d: "dict_get it ''ProviderIds'' (PDict []) = PDict d"
    by (auto simp: identify_def try_bind_Inr py_get_Inr split: if_splits)
  have nonempty: "it \<noteq> []"
    using ty by (auto simp: py_in_accepted_types dict_get_def)
  let ?basic = "(dict_get d ''Tmdb'' PNone, dict_get d ''IMDB'' PNone, dict_get d ''Tvdb'' PNone,
                 dict_get d ''DoubanID'' PNone, dict_get d ''Bangumi'' PNone)"
  have branch:
    "(if dict_get it ''Type'' PNone = PStr ''Episode''
      then identify_episode (PDict it) (dict_get p ''Event'' PNone) (dict_get it ''Id'' PNone)
             (dict_get it ''ProductionYear'' PNone) ?basic
      else identify_movie (PDict it) (dict_get p ''Event'' PNone) (dict_get it ''Id'' PNone)
             (dict_get it ''ProductionYear'' PNone) ?basic) = Inr idn"
    using assms p ev it ty d nonempty by (simp add: identify_def try_bind_def)
  have basic: "(r_basic_tmdb_id idn, r_basic_imdb_id idn, r_basic_tvdb_id idn,
                r_basic_douban_id idn, r_basic_bangumi_id idn) = ?basic"
    using branch identify_episode_Inr identify_movie_Inr by (auto split: if_splits)
  have "basic_id k idn = dict_get d (webhook_key k) PNone" for k
    using basic by (cases k) simp_all
  moreover have "dict_get it ''Type'' PNone \<noteq> PStr ''Episode'' \<Longrightarrow> dict_get it ''Type'' PNone = PStr ''Movie''"
    using ty by (simp add: py_in_accepted_types)
  ultimately show ?thesis
    using p ev it d branch basic by (auto split: if_splits)
qed

lemma handle_Submitted:
  assumes "handle ev r body w = (Submitted s, w')"
  shows "\<exists>payload idn. body = Some payload \<and> identify payload = Inr idn
           \<and> s = dispatch idn (fst (enhance_or_default ev r idn payload w))"
  using assms
  by (auto simp: handle_def split: option.splits sum.splits early.splits prod.splits)

lemma unique_key_dispatch:
  "unique_key (dispatch idn md) =
     make_unique_key (animeTitle (dispatch idn md)) (season (dispatch idn md))
       (currentEpisodeIndex (dispatch idn md))"
  by (simp add: dispatch_def)

subsection \<open>Irrelevant payloads\<close>

lemma identify_event_not_accepted:
  "event_not_accepted p \<Longrightarrow> identify (PDict p) = Inl Ignored"
  by (simp add: identify_def try_bind_def event_not_accepted_def)

lemma identify_item_type_not_accepted:
  assumes "item_type_not_accepted p"
  shows "identify (PDict p) = Inl Ignored"
proof (cases "dict_get p ''Item'' (PDict [])")
  case (PDict it)
  then show ?thesis
    using assms by (simp add: identify_def try_bind_def item_type_not_accepted_def)
qed (use assms in \<open>simp_all add: identify_def try_bind_def item_type_not_accepted_def\<close>)

lemma identify_episode_missing_fields:
  assumes "episode_missing_fields p"
  shows "identify (PDict p) = Inl Ignored"
proof -
  from assms obtain it where it: "dict_get p ''Item'' (PDict []) = PDict it"
    by (auto simp: episode_missing_fields_def split: pyval.splits)
  from assms it obtain d where d: "dict_get it ''ProviderIds'' (PDict []) = PDict d"
    by (auto simp: episode_missing_fields_def split: pyval.splits)
  from assms it have ty: "dict_get it ''Type'' PNone = PStr ''Episode''"
    and missing: "\<not> truthy (dict_get it ''SeriesName'' PNone) \<or>
           dict_get it ''ParentIndexNumber'' PNone = PNone \<or>
           dict_get it ''IndexNumber'' PNone = PNone"
    by (auto simp: episode_missing_fields_def)
  have ep: "identify_episode (PDict it) e i y b = Inl Ignored" for e i y b
    using missing by (auto simp: identify_episode_def try_bind_def)
  show ?thesis
    using it d ty ep by (simp add: identify_def try_bind_def py_in_accepted_types)
qed


text \<open>
  Claim C5, as amended. For every payload that is a JSON object: when its event is not
  one of \<^verbatim>\<open>item.add\<close>, \<^verbatim>\<open>library.new\<close>, \<^verbatim>\<open>playback.start\<close>, or its item is missing or empty
  or is an object whose type is neither Episode nor Movie, or its item is an Episode
  (with an identifier map that is an object or missing) that lacks the series title,
  the season number or the episode number, \<^verbatim>\<open>handle\<close> returns normally without a
  task; the module's state and the network activity stay as they were.
\<close>

theorem irrelevant_payload_dispatches_nothing:
  assumes "event_not_accepted p \<or> item_type_not_accepted p \<or> episode_missing_fields p"
  shows "handle ev r (Some (PDict p)) w = (NoDispatch, w)"
proof -
  have "identify (PDict p) = Inl Ignored"
    using assms identify_event_not_accepted identify_item_type_not_accepted
      identify_episode_missing_fields by blast
  then show ?thesis
    by (simp add: handle_def)
qed


theorem irrelevant_payload_witness:
  "handle \<lparr>EMBY_SERVER_URL = Some ''http://emby'', EMBY_API_KEY = None\<rparr>
          \<lparr>respond = (\<lambda>n req. Timeout), client_opens = (\<lambda>n. True)\<rparr>
          (Some (PDict [(''Event'', PStr ''item.add''),
                        (''Item'', PDict [(''Type'', PStr ''Episode''), (''SeriesName'', PStr ''Bar''),
                                          (''IndexNumber'', PInt 5)])]))
          (None, \<lparr>clients_created = 0, requests = []\<rparr>)
   = (NoDispatch, (None, \<lparr>clients_created = 0, requests = []\<rparr>))"
proof -
  have "episode_missing_fields
          [(''Event'', PStr ''item.add''),
           (''Item'', PDict [(''Type'', PStr ''Episode''), (''SeriesName'', PStr ''Bar''),
                             (''IndexNumber'', PInt 5)])]"
    by (simp add: episode_missing_fields_def dict_get_def)
  then show ?thesis
    using irrelevant_payload_dispatches_nothing by blast
qed


text \<open>
  Claim C5, as stated, fails on a well-formed JSON payload: an Episode without series
  title, season and episode whose \<^verbatim>\<open>ProviderIds\<close> is \<^verbatim>\<open>null\<close> makes
  \<^verbatim>\<open>provider_ids.get("Tmdb")\<close> raise \<^verbatim>\<open>AttributeError\<close> before the check of the missing
  fields, and nothing in \<^verbatim>\<open>handle\<close> catches it.
\<close>

theorem episode_with_null_provider_ids_counterexample:
  "handle \<lparr>EMBY_SERVER_URL = None, EMBY_API_KEY = None\<rparr>
          \<lparr>respond = (\<lambda>n req. Timeout), client_opens = (\<lambda>n. True)\<rparr>
          (Some (PDict [(''Event'', PStr ''item.add''),
                        (''Item'', PDict [(''Type'', PStr ''Episode''), (''ProviderIds'', PNone)])]))
          (None, \<lparr>clients_created = 0, requests = []\<rparr>)
   = (Unhandled AttributeError, (None, \<lparr>clients_created = 0, requests = []\<rparr>))"
  by code_simp

subsection \<open>The unique key\<close>

text \<open>
  Claim C8. Two deliveries, whatever the environment, the remote side, the state they
  start from, their provider IDs and their event types, that are dispatched with the
  same title, season and episode carry the same unique key: the key is
  \<open>make_unique_key\<close> of these three values.
\<close>

theorem unique_key_determined_by_title_season_episode:
  assumes "handle ev1 r1 body1 w1 = (Submitted s1, w1')"
      and "handle ev2 r2 body2 w2 = (Submitted s2, w2')"
      and "animeTitle s1 = animeTitle s2"
      and "season s1 = season s2"
      and "currentEpisodeIndex s1 = currentEpisodeIndex s2"
  shows "unique_key s1 = unique_key s2
       \<and> unique_key s1 = make_unique_key (animeTitle s1) (season s1) (currentEpisodeIndex s1)"
proof -
  from handle_Submitted [OF assms(1)] obtain idn1 md1 where s1: "s1 = dispatch idn1 md1"
    by blast
  from handle_Submitted [OF assms(2)] obtain idn2 md2 where s2: "s2 = dispatch idn2 md2"
    by blast
  have k1: "unique_key s1 = make_unique_key (animeTitle s1) (season s1) (currentEpisodeIndex s1)"
    unfolding s1 by (rule unique_key_dispatch)
  have k2: "unique_key s2 = make_unique_key (animeTitle s2) (season s2) (currentEpisodeIndex s2)"
    unfolding s2 by (rule unique_key_dispatch)
  show ?thesis
    using k1 k2 assms(3-5) by simp
qed

theorem unique_key_witness:
  "unique_key
     \<lparr>animeTitle = PStr ''Foo'', mediaType = ''movie'', season = PInt 1,
      currentEpisodeIndex = PInt 1, year = PNone, searchKeyword = PStr ''Foo'',
      doubanId = PNone, tmdbId = PStr ''100'', imdbId = PNone, tvdbId = PNone,
      bangumiId = PNone, webhookSource = ''emby'', eventType = PStr ''item.add'',
      task_title = task_title_prefix @ ''Foo'',
      unique_key = ''webhook-search-Foo-S1-E1''\<rparr>
   = unique_key
     \<lparr>animeTitle = PStr ''Foo'', mediaType = ''movie'', season = PInt 1,
      currentEpisodeIndex = PInt 1, year = PInt 2020, searchKeyword = PStr ''Foo'',
      doubanId = PNone, tmdbId = PNone, imdbId = PStr ''tt9'', tvdbId = PNone,
      bangumiId = PNone, webhookSource = ''emby'', eventType = PStr ''playback.start'',
      task_title = task_title_prefix @ ''Foo'',
      unique_key = ''webhook-search-Foo-S1-E1''\<rparr>"
proof -
  have h1:
    "handle \<lparr>EMBY_SERVER_URL = None, EMBY_API_KEY = None\<rparr>
          \<lparr>respond = (\<lambda>n req. Timeout), client_opens = (\<lambda>n. True)\<rparr>
          (Some (PDict [(''Event'', PStr ''item.add''),
                        (''Item'', PDict [(''Type'', PStr ''Movie''), (''Name'', PStr ''Foo''),
                                          (''ProviderIds'', PDict [(''Tmdb'', PStr ''100'')])])]))
          (None, \<lparr>clients_created = 0, requests = []\<rparr>)
     = (Submitted
        \<lparr>animeTitle = PStr ''Foo'', mediaType = ''movie'', season = PInt 1,
         currentEpisodeIndex = PInt 1, year = PNone, searchKeyword = PStr ''Foo'',
         doubanId = PNone, tmdbId = PStr ''100'', imdbId = PNone, tvdbId = PNone,
         bangumiId = PNone, webhookSource = ''emby'', eventType = PStr ''item.add'',
         task_title = task_title_prefix @ ''Foo'',
         unique_key = ''webhook-search-Foo-S1-E1''\<rparr>,
      (Some (SafeMetadataEnhancer_init None None), \<lparr>clients_created = 0, requests = []\<rparr>))"
    by code_simp
  have h2:
    "handle \<lparr>EMBY_SERVER_URL = None, EMBY_API_KEY = None\<rparr>
          \<lparr>respond = (\<lambda>n req. Timeout), client_opens = (\<lambda>n. True)\<rparr>
          (Some (PDict [(''Event'', PStr ''playback.start''),
                        (''Item'', PDict [(''Type'', PStr ''Movie''), (''Name'', PStr ''Foo''),
                                          (''ProductionYear'', PInt 2020),
                                          (''ProviderIds'', PDict [(''IMDB'', PStr ''tt9'')])])]))
          (None, \<lparr>clients_created = 0, requests = []\<rparr>)
     = (Submitted
        \<lparr>animeTitle = PStr ''Foo'', mediaType = ''movie'', season = PInt 1,
         currentEpisodeIndex = PInt 1, year = PInt 2020, searchKeyword = PStr ''Foo'',
         doubanId = PNone, tmdbId = PNone, imdbId = PStr ''tt9'', tvdbId = PNone,
         bangumiId = PNone, webhookSource = ''emby'', eventType = PStr ''playback.start'',
         task_title = task_title_prefix @ ''Foo'',
         unique_key = ''webhook-search-Foo-S1-E1''\<rparr>,
      (Some (SafeMetadataEnhancer_init None None), \<lparr>clients_created = 0, requests = []\<rparr>))"
    by code_simp
  show ?thesis
    using unique_key_determined_by_title_season_episode [OF h1 h2] by simp
qed

lemma py_str_one: "py_str (PInt 1) = ''1''"
  by (simp add: py_str_def str_int_def digit_char_def)

text \<open>
  Claim C9. The unique key holds neither the media type nor the year: a dispatched
  Movie payload titled \<open>T\<close> and a dispatched Episode payload with series title \<open>T\<close>,
  season 1 and episode 1 both carry the key \<^verbatim>\<open>webhook-search-T-S1-E1\<close>.
\<close>

theorem movie_and_first_episode_share_unique_key:
  assumes "handle ev1 r1 (Some (PDict pm)) w1 = (Submitted sm, w1')"
      and "dict_get pm ''Item'' (PDict []) = PDict im"
      and "dict_get im ''Type'' PNone = PStr ''Movie''"
      and "dict_get im ''Name'' PNone = PStr T"
      and "handle ev2 r2 (Some (PDict pe)) w2 = (Submitted se, w2')"
      and "dict_get pe ''Item'' (PDict []) = PDict ie"
      and "dict_get ie ''Type'' PNone = PStr ''Episode''"
      and "dict_get ie ''SeriesName'' PNone = PStr T"
      and "dict_get ie ''ParentIndexNumber'' PNone = PInt 1"
      and "dict_get ie ''IndexNumber'' PNone = PInt 1"
  shows "unique_key sm = ''webhook-search-'' @ T @ ''-S1-E1''
       \<and> unique_key se = ''webhook-search-'' @ T @ ''-S1-E1''"
proof -
  from handle_Submitted [OF assms(1)] obtain idm mdm
    where idm: "identify (PDict pm) = Inr idm" and sm: "sm = dispatch idm mdm"
    by auto
  from identify_Inr [OF idm] assms(2,3)
  have "identify_movie (PDict im) (dict_get pm ''Event'' PNone) (dict_get im ''Id'' PNone)
          (dict_get im ''ProductionYear'' PNone)
          (r_basic_tmdb_id idm, r_basic_imdb_id idm, r_basic_tvdb_id idm,
           r_basic_douban_id idm, r_basic_bangumi_id idm) = Inr idm"
    by auto
  from identify_movie_Inr [OF this] assms(4)
  have m: "r_anime_title idm = PStr T" "r_season_number idm = PInt 1" "r_episode_number idm = PInt 1"
    by simp_all
  from handle_Submitted [OF assms(5)] obtain ide mde
    where ide: "identify (PDict pe) = Inr ide" and se: "se = dispatch ide mde"
    by auto
  from identify_Inr [OF ide] assms(6,7)
  have "identify_episode (PDict ie) (dict_get pe ''Event'' PNone) (dict_get ie ''Id'' PNone)
          (dict_get ie ''ProductionYear'' PNone)
          (r_basic_tmdb_id ide, r_basic_imdb_id ide, r_basic_tvdb_id ide,
           r_basic_douban_id ide, r_basic_bangumi_id ide) = Inr ide"
    by auto
  from identify_episode_Inr [OF this] assms(8-10)
  have e: "r_anime_title ide = PStr T" "r_season_number ide = PInt 1" "r_episode_number ide = PInt 1"
    by simp_all
  show ?thesis
    by (simp add: sm se dispatch_def make_unique_key_def m e py_str_one) (simp add: py_str_def)
qed

theorem movie_and_first_episode_witness:
  "unique_key
     \<lparr>animeTitle = PStr ''Foo'', mediaType = ''movie'', season = PInt 1,
      currentEpisodeIndex = PInt 1, year = PNone, searchKeyword = PStr ''Foo'',
      doubanId = PNone, tmdbId = PNone, imdbId = PNone, tvdbId = PNone,
      bangumiId = PNone, webhookSource = ''emby'', eventType = PStr ''item.add'',
      task_title = task_title_prefix @ ''Foo'',
      unique_key = ''webhook-search-Foo-S1-E1''\<rparr> = ''webhook-search-Foo-S1-E1''
   \<and> unique_key
     \<lparr>animeTitle = PStr ''Foo'', mediaType = ''tv_series'', season = PInt 1,
      currentEpisodeIndex = PInt 1, year = PNone, searchKeyword = PStr ''Foo S01E01'',
      doubanId = PNone, tmdbId = PNone, imdbId = PNone, tvdbId = PNone,
      bangumiId = PNone, webhookSource = ''emby'', eventType = PStr ''item.add'',
      task_title = task_title_prefix @ ''Foo - S01E01'',
      unique_key = ''webhook-search-Foo-S1-E1''\<rparr> = ''webhook-search-Foo-S1-E1''"
proof -
  have h1:
    "handle \<lparr>EMBY_SERVER_URL = None, EMBY_API_KEY = None\<rparr>
          \<lparr>respond = (\<lambda>n req. Timeout), client_opens = (\<lambda>n. True)\<rparr>
          (Some (PDict [(''Event'', PStr ''item.add''),
                        (''Item'', PDict [(''Type'', PStr ''Movie''), (''Name'', PStr ''Foo'')])]))
          (None, \<lparr>clients_created = 0, requests = []\<rparr>)
     = (Submitted
        \<lparr>animeTitle = PStr ''Foo'', mediaType = ''movie'', season = PInt 1,
         currentEpisodeIndex = PInt 1, year = PNone, searchKeyword = PStr ''Foo'',
         doubanId = PNone, tmdbId = PNone, imdbId = PNone, tvdbId = PNone,
         bangumiId = PNone, webhookSource = ''emby'', eventType = PStr ''item.add'',
         task_title = task_title_prefix @ ''Foo'',
         unique_key = ''webhook-search-Foo-S1-E1''\<rparr>,
      (Some (SafeMetadataEnhancer_init None None), \<lparr>clients_created = 0, requests = []\<rparr>))"
    by code_simp
  have h2:
    "handle \<lparr>EMBY_SERVER_URL = None, EMBY_API_KEY = None\<rparr>
          \<lparr>respond = (\<lambda>n req. Timeout), client_opens = (\<lambda>n. True)\<rparr>
          (Some (PDict [(''Event'', PStr ''item.add''),
                        (''Item'', PDict [(''Type'', PStr ''Episode''), (''SeriesName'', PStr ''Foo''),
                                          (''ParentIndexNumber'', PInt 1),
                                          (''IndexNumber'', PInt 1)])]))
          (None, \<lparr>clients_created = 0, requests = []\<rparr>)
     = (Submitted
        \<lparr>animeTitle = PStr ''Foo'', mediaType = ''tv_series'', season = PInt 1,
         currentEpisodeIndex = PInt 1, year = PNone, searchKeyword = PStr ''Foo S01E01'',
         doubanId = PNone, tmdbId = PNone, imdbId = PNone, tvdbId = PNone,
         bangumiId = PNone, webhookSource = ''emby'', eventType = PStr ''item.add'',
         task_title = task_title_prefix @ ''Foo - S01E01'',
         unique_key = ''webhook-search-Foo-S1-E1''\<rparr>,
      (Some (SafeMetadataEnhancer_init None None), \<lparr>clients_created = 0, requests = []\<rparr>))"
    by code_simp
  show ?thesis
    using movie_and_first_episode_share_unique_key
      [where T = "''Foo''"
         and im = "[(''Type'', PStr ''Movie''), (''Name'', PStr ''Foo'')]"
         and ie = "[(''Type'', PStr ''Episode''), (''SeriesName'', PStr ''Foo''),
                    (''ParentIndexNumber'', PInt 1), (''IndexNumber'', PInt 1)]",
       OF h1 _ _ _ h2]
    by (simp add: dict_get_def)
qed

subsection \<open>Alias-based extraction\<close>

lemma str_nat_nonempty: "str_nat n \<noteq> []"
  by (subst str_nat.simps) simp

lemma str_int_nonempty: "str_int i \<noteq> []"
  by (simp add: str_int_def str_nat_nonempty)

lemma py_str_nonempty: "truthy v \<Longrightarrow> py_str v \<noteq> []"
  by (cases v) (simp_all add: py_str_def str_int_nonempty)

lemma first_alias_dict:
  "first_alias (PDict d) names =
     Inr (case find (\<lambda>a. truthy (dict_get d a PNone)) names of
            None \<Rightarrow> None
          | Some a \<Rightarrow> Some (PStr (py_str (dict_get d a PNone))))"
  by (induction names) (auto simp: dict_get_def split: option.splits)

lemma first_alias_Some:
  "first_alias p names = Inr (Some v) \<Longrightarrow>
     \<exists>a raw. a \<in> set names \<and> py_getitem p a = Inr raw \<and> truthy raw \<and> v = PStr (py_str raw)"
  by (induction names) (auto split: sum.splits if_splits)

lemma extract_loop_other:
  "extract_loop p ms md = Inr md' \<Longrightarrow> k \<notin> snd ` set ms \<Longrightarrow>
     dict_get md' k dflt = dict_get md k dflt"
proof (induction ms arbitrary: md)
  case Nil
  then show ?case by simp
next
  case (Cons m ms)
  obtain names target where m: "m = (names, target)" by (cases m)
  from Cons.prems show ?case
    by (auto simp: m dict_get_dict_set split: sum.splits option.splits dest!: Cons.IH)
qed

lemma extract_loop_value:
  "extract_loop p ms md = Inr md' \<Longrightarrow> distinct (map snd ms) \<Longrightarrow> (names, target) \<in> set ms \<Longrightarrow>
     \<exists>r. first_alias p names = Inr r \<and>
         dict_get md' target PNone = (case r of None \<Rightarrow> dict_get md target PNone | Some v \<Rightarrow> v)"
proof (induction ms arbitrary: md)
  case Nil
  then show ?case by simp
next
  case (Cons m ms)
  obtain ns t where m: "m = (ns, t)" by (cases m)
  show ?case
  proof (cases "(names, target) = (ns, t)")
    case True
    have t: "t \<notin> snd ` set ms"
      using Cons.prems(2) by (simp add: m)
    from Cons.prems(1) True t show ?thesis
      by (auto simp: m dict_get_dict_set split: sum.splits option.splits
               dest!: extract_loop_other [where k = t and dflt = PNone])
  next
    case False
    then have mem: "(names, target) \<in> set ms"
      using Cons.prems(3) by (auto simp: m)
    have ne: "target \<noteq> t"
      using Cons.prems(2) mem by (force simp: m)
    have d: "distinct (map snd ms)"
      using Cons.prems(2) by simp
    from Cons.prems(1) obtain md1
      where step: "extract_loop p ms md1 = Inr md'"
        and same: "dict_get md1 target PNone = dict_get md target PNone"
      using ne by (auto simp: m dict_get_dict_set split: sum.splits option.splits)
    from Cons.IH [OF step d mem] show ?thesis
      unfolding same .
  qed
qed

lemma extract_loop_dict_Inr: "\<exists>md'. extract_loop (PDict d) ms md = Inr md'"
proof (induction ms arbitrary: md)
  case Nil
  show ?case by simp
next
  case (Cons m ms)
  obtain ns t where m: "m = (ns, t)" by (cases m)
  show ?case
    using Cons.IH by (simp add: m first_alias_dict split: option.splits)
qed

lemma id_mappings_distinct: "distinct (map snd id_mappings)"
  by (simp add: id_mappings_def)

lemma id_mappings_kind: "(alias_list kind, metadata_key kind) \<in> set id_mappings"
  by (cases kind) (simp_all add: id_mappings_def)

text \<open>The table's loop from the default dictionary, for one provider kind.\<close>

lemma extract_loop_kind:
  assumes "extract_loop p id_mappings default_metadata = Inr md"
  shows "\<exists>r. first_alias p (alias_list kind) = Inr r \<and>
           dict_get md (metadata_key kind) PNone = (case r of None \<Rightarrow> PNone | Some v \<Rightarrow> v)"
  using extract_loop_value [OF assms id_mappings_distinct id_mappings_kind, of kind]
  by (simp only: dict_get_default_metadata)

lemma extract_loop_dict_kind:
  assumes "extract_loop (PDict d) id_mappings default_metadata = Inr md"
  shows "dict_get md (metadata_key kind) PNone = resolve_aliases d (alias_list kind)"
  using extract_loop_kind [OF assms, of kind]
  by (auto simp: first_alias_dict resolve_aliases_def split: option.splits)

text \<open>
  Claim C10. Whatever the identifier value is, when \<^verbatim>\<open>_extract_metadata_ids\<close> (on an API
  response) or \<^verbatim>\<open>_extract_metadata_from_webhook\<close> (on the webhook data) returns a
  dictionary, the entry of each provider kind is either \<^verbatim>\<open>None\<close> or \<^verbatim>\<open>str(raw)\<close> for the
  raw value \<open>raw\<close> found under one of the kind's aliases, that raw value is truthy, and
  the string is not empty. An alias whose raw value is absent, \<^verbatim>\<open>null\<close>, the empty string
  or zero is passed over: the loop goes on with the next alias.
\<close>

theorem extraction_yields_string_of_truthy_raw_value:
  "((py_get data ''ProviderIds'' (PDict []) = Inr pids \<and> extract_metadata_ids data = Inr md)
      \<or> (\<exists>item. py_get data ''Item'' (PDict []) = Inr item \<and>
                 py_get item ''ProviderIds'' (PDict []) = Inr pids \<and>
                 extract_metadata_from_webhook data = Inr md)
     \<longrightarrow> dict_get md (metadata_key kind) PNone = PNone
         \<or> (\<exists>a raw. a \<in> set (alias_list kind) \<and> py_getitem pids a = Inr raw \<and> truthy raw
                \<and> dict_get md (metadata_key kind) PNone = PStr (py_str raw)
                \<and> py_str raw \<noteq> []))
   \<and> (dict_get d a PNone = PNone \<or> dict_get d a PNone = PStr [] \<or> dict_get d a PNone = PInt 0
     \<longrightarrow> first_alias (PDict d) (a # rest) = first_alias (PDict d) rest)"
proof (intro conjI impI)
  assume "(py_get data ''ProviderIds'' (PDict []) = Inr pids \<and> extract_metadata_ids data = Inr md)
      \<or> (\<exists>item. py_get data ''Item'' (PDict []) = Inr item \<and>
                 py_get item ''ProviderIds'' (PDict []) = Inr pids \<and>
                 extract_metadata_from_webhook data = Inr md)"
  then have loop: "extract_loop pids id_mappings default_metadata = Inr md"
    by (auto simp: extract_metadata_ids_def extract_metadata_from_webhook_def)
  from extract_loop_kind [OF loop, of kind] obtain r
    where r: "first_alias pids (alias_list kind) = Inr r"
      and v: "dict_get md (metadata_key kind) PNone = (case r of None \<Rightarrow> PNone | Some v \<Rightarrow> v)"
    by blast
  show "dict_get md (metadata_key kind) PNone = PNone
         \<or> (\<exists>a raw. a \<in> set (alias_list kind) \<and> py_getitem pids a = Inr raw \<and> truthy raw
                \<and> dict_get md (metadata_key kind) PNone = PStr (py_str raw)
                \<and> py_str raw \<noteq> [])"
  proof (cases r)
    case None
    then show ?thesis using v by simp
  next
    case (Some x)
    from first_alias_Some [OF r [unfolded Some]] obtain a raw
      where "a \<in> set (alias_list kind)" "py_getitem pids a = Inr raw" "truthy raw"
        "x = PStr (py_str raw)"
      by blast
    then show ?thesis
      using v Some py_str_nonempty by auto
  qed
next
  assume "dict_get d a PNone = PNone \<or> dict_get d a PNone = PStr [] \<or> dict_get d a PNone = PInt 0"
  then have "\<not> truthy (dict_get d a PNone)"
    by auto
  then show "first_alias (PDict d) (a # rest) = first_alias (PDict d) rest"
    by (simp add: first_alias_dict del: first_alias.simps)
qed

theorem extraction_witness:
  "dict_get [(''tmdb_id'', PNone), (''imdb_id'', PStr ''tt1''), (''tvdb_id'', PNone),
             (''douban_id'', PNone), (''bangumi_id'', PNone)] (metadata_key IMDb) PNone
     = PStr ''tt1''
   \<and> (\<exists>a raw. a \<in> set (alias_list IMDb)
          \<and> py_getitem (PDict [(''Imdb'', PStr []), (''IMDB'', PInt 0), (''IMDb'', PStr ''tt1'')]) a
               = Inr raw
          \<and> truthy raw \<and> PStr ''tt1'' = PStr (py_str raw) \<and> py_str raw \<noteq> [])
   \<and> first_alias (PDict [(''Imdb'', PStr []), (''IMDB'', PInt 0), (''IMDb'', PStr ''tt1'')])
        [''Imdb'', ''IMDB'', ''IMDb'']
     = first_alias (PDict [(''Imdb'', PStr []), (''IMDB'', PInt 0), (''IMDb'', PStr ''tt1'')])
        [''IMDB'', ''IMDb'']"
proof -
  let ?d = "[(''Imdb'', PStr []), (''IMDB'', PInt 0), (''IMDb'', PStr ''tt1'')]"
  let ?data = "PDict [(''ProviderIds'', PDict ?d)]"
  let ?md = "[(''tmdb_id'', PNone), (''imdb_id'', PStr ''tt1''), (''tvdb_id'', PNone),
              (''douban_id'', PNone), (''bangumi_id'', PNone)]"
  have g: "py_get ?data ''ProviderIds'' (PDict []) = Inr (PDict ?d)"
    by (simp add: dict_get_def)
  have e: "extract_metadata_ids ?data = Inr ?md"
    by code_simp
  have v: "dict_get ?md (metadata_key IMDb) PNone = PStr ''tt1''"
    by (simp add: dict_get_def)
  have s: "dict_get ?d ''Imdb'' PNone = PStr []"
    by (simp add: dict_get_def)
  show ?thesis
    using extraction_yields_string_of_truthy_raw_value
      [where data = ?data and pids = "PDict ?d" and md = ?md and kind = IMDb
         and d = ?d and a = "''Imdb''" and rest = "[''IMDB'', ''IMDb'']"]
      g e v s
    by simp
qed

subsection \<open>Alias resolution on the three extraction paths\<close>

lemma webhook_provider_ids_Some:
  "webhook_provider_ids wd = Some d \<longleftrightarrow>
     (\<exists>p it. wd = PDict p \<and> dict_get p ''Item'' (PDict []) = PDict it \<and>
             dict_get it ''ProviderIds'' (PDict []) = PDict d)"
  by (auto simp: webhook_provider_ids_def split: pyval.splits)

lemma extract_metadata_from_webhook_shaped:
  assumes "webhook_provider_ids wd = Some d"
  shows "\<exists>md. extract_metadata_from_webhook wd = Inr md \<and>
              (\<forall>kind. dict_get md (metadata_key kind) PNone = resolve_aliases d (alias_list kind))"
proof -
  from assms obtain p it where s: "wd = PDict p" "dict_get p ''Item'' (PDict []) = PDict it"
    "dict_get it ''ProviderIds'' (PDict []) = PDict d"
    by (auto simp: webhook_provider_ids_Some)
  obtain md where md: "extract_loop (PDict d) id_mappings default_metadata = Inr md"
    using extract_loop_dict_Inr by blast
  have "extract_metadata_from_webhook wd = Inr md"
    using s md by (simp add: extract_metadata_from_webhook_def)
  then show ?thesis
    using extract_loop_dict_kind [OF md] by blast
qed

lemma extract_metadata_ids_shaped:
  assumes "dict_get item ''ProviderIds'' (PDict []) = PDict d"
  shows "\<exists>md. extract_metadata_ids (PDict item) = Inr md \<and>
              (\<forall>kind. dict_get md (metadata_key kind) PNone = resolve_aliases d (alias_list kind))"
proof -
  obtain md where md: "extract_loop (PDict d) id_mappings default_metadata = Inr md"
    using extract_loop_dict_Inr by blast
  have "extract_metadata_ids (PDict item) = Inr md"
    using assms md by (simp add: extract_metadata_ids_def)
  then show ?thesis
    using extract_loop_dict_kind [OF md] by blast
qed

lemma identify_basic_ids:
  assumes "identify payload = Inr idn"
  shows "\<exists>d. webhook_provider_ids payload = Some d \<and>
             (\<forall>kind. basic_id kind idn = dict_get d (webhook_key kind) PNone)"
  using identify_Inr [OF assms] by (auto simp: webhook_provider_ids_Some)

lemma resolve_aliases_absent:
  "(\<forall>a. a \<in> set names \<longrightarrow> map_of d a = None) \<Longrightarrow> resolve_aliases d names = PNone"
  by (induction names) (auto simp: resolve_aliases_def dict_get_def)

text \<open>
  Claim C3, as amended. For every identifier map \<open>d\<close>: the extraction from an API
  response and the fallback extraction from the webhook data return normally and give,
  for each provider kind, \<open>resolve_aliases\<close> over the kind's alias list (the first alias
  with a truthy value wins; absent when there is none). The basic extraction in
  \<^verbatim>\<open>handle\<close> reads exactly one key per kind (\<^verbatim>\<open>Tmdb\<close>, \<^verbatim>\<open>IMDB\<close>, \<^verbatim>\<open>Tvdb\<close>, \<^verbatim>\<open>DoubanID\<close>,
  \<^verbatim>\<open>Bangumi\<close>) and gives its raw value. On each path a missing key gives absent, not an
  error, and the map \<^verbatim>\<open>{"IMDB": "tt1"}\<close> gives IMDb = \<^verbatim>\<open>"tt1"\<close>.
\<close>

theorem alias_resolution_by_source:
  "(dict_get item ''ProviderIds'' (PDict []) = PDict d \<longrightarrow>
      (\<exists>md. extract_metadata_ids (PDict item) = Inr md \<and>
            (\<forall>kind. dict_get md (metadata_key kind) PNone = resolve_aliases d (alias_list kind))))
   \<and> (webhook_provider_ids wd = Some d \<longrightarrow>
      (\<exists>md. extract_metadata_from_webhook wd = Inr md \<and>
            (\<forall>kind. dict_get md (metadata_key kind) PNone = resolve_aliases d (alias_list kind))))
   \<and> (identify payload = Inr idn \<longrightarrow>
      (\<exists>d'. webhook_provider_ids payload = Some d' \<and>
            (\<forall>kind. basic_id kind idn = dict_get d' (webhook_key kind) PNone)))
   \<and> ((\<forall>a. a \<in> set names \<longrightarrow> map_of d a = None) \<longrightarrow> resolve_aliases d names = PNone)
   \<and> (map_of d (webhook_key kind) = None \<longrightarrow> dict_get d (webhook_key kind) PNone = PNone)
   \<and> resolve_aliases [(''IMDB'', PStr ''tt1'')] (alias_list IMDb) = PStr ''tt1''
   \<and> dict_get [(''IMDB'', PStr ''tt1'')] (webhook_key IMDb) PNone = PStr ''tt1''"
proof -
  have a: "dict_get item ''ProviderIds'' (PDict []) = PDict d \<longrightarrow>
      (\<exists>md. extract_metadata_ids (PDict item) = Inr md \<and>
            (\<forall>kind. dict_get md (metadata_key kind) PNone = resolve_aliases d (alias_list kind)))"
    using extract_metadata_ids_shaped by blast
  have b: "webhook_provider_ids wd = Some d \<longrightarrow>
      (\<exists>md. extract_metadata_from_webhook wd = Inr md \<and>
            (\<forall>kind. dict_get md (metadata_key kind) PNone = resolve_aliases d (alias_list kind)))"
    using extract_metadata_from_webhook_shaped by blast
  have c: "identify payload = Inr idn \<longrightarrow>
      (\<exists>d'. webhook_provider_ids payload = Some d' \<and>
            (\<forall>kind. basic_id kind idn = dict_get d' (webhook_key kind) PNone))"
    using identify_basic_ids by blast
  have e: "(\<forall>a. a \<in> set names \<longrightarrow> map_of d a = None) \<longrightarrow> resolve_aliases d names = PNone"
    using resolve_aliases_absent by blast
  have f: "map_of d (webhook_key kind) = None \<longrightarrow> dict_get d (webhook_key kind) PNone = PNone"
    by (simp add: dict_get_def)
  have g: "resolve_aliases [(''IMDB'', PStr ''tt1'')] (alias_list IMDb) = PStr ''tt1''"
    by (simp add: resolve_aliases_def dict_get_def py_str_def)
  have h: "dict_get [(''IMDB'', PStr ''tt1'')] (webhook_key IMDb) PNone = PStr ''tt1''"
    by (simp add: dict_get_def)
  show ?thesis
    using a b c e f g h by blast
qed

theorem alias_resolution_witness:
  "(\<exists>md. extract_metadata_ids (PDict [(''ProviderIds'', PDict [(''TMDB'', PInt 7), (''IMDb'', PStr ''tt2'')])])
            = Inr md
         \<and> dict_get md (metadata_key TMDB) PNone = PStr ''7''
         \<and> dict_get md (metadata_key IMDb) PNone = PStr ''tt2''
         \<and> dict_get md (metadata_key Bangumi) PNone = PNone)"
proof -
  let ?d = "[(''TMDB'', PInt 7), (''IMDb'', PStr ''tt2'')]"
  have g: "dict_get [(''ProviderIds'', PDict ?d)] ''ProviderIds'' (PDict []) = PDict ?d"
    by (simp add: dict_get_def)
  have r: "resolve_aliases ?d (alias_list TMDB) = PStr ''7''"
      "resolve_aliases ?d (alias_list IMDb) = PStr ''tt2''"
      "resolve_aliases ?d (alias_list Bangumi) = PNone"
    by (simp_all add: resolve_aliases_def dict_get_def py_str_def str_int_def digit_char_def)
  from alias_resolution_by_source [where item = "[(''ProviderIds'', PDict ?d)]" and d = ?d] g
  obtain md where "extract_metadata_ids (PDict [(''ProviderIds'', PDict ?d)]) = Inr md"
    and "\<forall>kind. dict_get md (metadata_key kind) PNone = resolve_aliases ?d (alias_list kind)"
    by blast
  then show ?thesis
    using r by (intro exI [of _ md]) (simp del: metadata_key.simps alias_list.simps)
qed

text \<open>
  Claim C3, as stated, fails for the identifier map of a webhook payload: with
  \<^verbatim>\<open>{"Imdb": "tt1"}\<close>, whose key is the first alias of IMDb, the basic extraction of
  \<^verbatim>\<open>handle\<close> yields no IMDb ID, and when the API supplies another ID (so that the
  fallback extraction does not run) the dispatched task has no IMDb ID.
\<close>

theorem basic_extraction_ignores_aliases_counterexample:
  "(case identify (PDict [(''Event'', PStr ''item.add''),
                          (''Item'', PDict [(''Type'', PStr ''Movie''), (''Name'', PStr ''Foo''),
                                            (''ProviderIds'', PDict [(''Imdb'', PStr ''tt1'')])])]) of
      Inr idn \<Rightarrow> basic_id IMDb idn = PNone
    | Inl _ \<Rightarrow> False)
   \<and> resolve_aliases [(''Imdb'', PStr ''tt1'')] (alias_list IMDb) = PStr ''tt1''
   \<and> (case fst (handle \<lparr>EMBY_SERVER_URL = Some ''http://emby'', EMBY_API_KEY = None\<rparr>
          \<lparr>respond = (\<lambda>n req. if req_path req = ''/emby/Users''
                                then Response 200 (Some (PList [PDict [(''Id'', PStr ''u1'')]]))
                                else Response 200 (Some (PDict [(''ProviderIds'',
                                                                 PDict [(''Tmdb'', PStr ''5'')])]))),
            client_opens = (\<lambda>n. True)\<rparr>
          (Some (PDict [(''Event'', PStr ''item.add''),
                        (''Item'', PDict [(''Type'', PStr ''Movie''), (''Name'', PStr ''Foo''),
                                          (''ProviderIds'', PDict [(''Imdb'', PStr ''tt1'')])])]))
          (None, \<lparr>clients_created = 0, requests = []\<rparr>)) of
      Submitted s \<Rightarrow> tmdbId s = PStr ''5'' \<and> imdbId s = PNone
    | _ \<Rightarrow> False)"
  by code_simp

subsection \<open>The series/item merge\<close>

lemma map_of_dict_items: "map_of (dict_items d) = map_of d"
  by (simp add: dict_items_def map_of_clearjunk)

lemma distinct_dict_items: "distinct (map fst (dict_items d))"
  by (simp add: dict_items_def)

lemma merge_items_get:
  "distinct (map fst xs) \<Longrightarrow>
     dict_get (merge_items m xs) k dflt =
       (case map_of xs k of
          None \<Rightarrow> dict_get m k dflt
        | Some v \<Rightarrow> if truthy v then v else dict_get m k dflt)"
proof (induction xs arbitrary: m)
  case Nil
  show ?case by simp
next
  case (Cons x xs)
  obtain key val where x: "x = (key, val)" by (cases x)
  have d: "distinct (map fst xs)" and fresh: "key \<notin> fst ` set xs"
    using Cons.prems by (simp_all add: x)
  have none: "map_of xs key = None"
    using fresh by (simp add: map_of_eq_None_iff)
  show ?case
    using none by (simp add: x Cons.IH [OF d] dict_get_dict_set split: option.splits)
qed

lemma merge_source_get:
  "dict_get (merge_source m md) k dflt =
     (if truthy (md_get md k) then md_get md k else dict_get m k dflt)"
proof (cases md)
  case None
  then show ?thesis by (simp add: merge_source_def)
next
  case (Some d)
  show ?thesis
  proof (cases "d = []")
    case True
    then show ?thesis by (simp add: Some merge_source_def dict_get_def)
  next
    case False
    have "dict_get (merge_source m md) k dflt =
            (case map_of d k of
               None \<Rightarrow> dict_get m k dflt
             | Some v \<Rightarrow> if truthy v then v else dict_get m k dflt)"
      using False
      by (simp add: Some merge_source_def merge_items_get [OF distinct_dict_items]
            map_of_dict_items)
    also have "\<dots> = (if truthy (md_get md k) then md_get md k else dict_get m k dflt)"
      by (cases "map_of d k") (simp_all add: Some dict_get_def)
    finally show ?thesis .
  qed
qed

text \<open>
  \<^verbatim>\<open>_merge_metadata\<close> on arbitrary dictionaries, key by key: the series-level value when
  it is truthy, otherwise the item-level value when that one is truthy, otherwise
  \<^verbatim>\<open>None\<close>.
\<close>

lemma merge_metadata_get:
  "dict_get (merge_metadata series_metadata item_metadata) k PNone =
     (if truthy (md_get series_metadata k) then md_get series_metadata k
      else if truthy (md_get item_metadata k) then md_get item_metadata k
      else PNone)"
  by (simp add: merge_metadata_def merge_source_get dict_get_default_metadata)

subsection \<open>The merged identity of the dispatched task\<close>

lemma task_id_dispatch:
  "task_id kind (dispatch idn md) =
     str_or_none (final_id md (metadata_key kind) (basic_id kind idn))"
  by (cases kind) (simp_all add: dispatch_def)

text \<open>
  Claim C1, as amended. Every task \<^verbatim>\<open>handle\<close> submits is \<open>dispatch\<close> of what it resolved
  from the payload and of the enhancer's dictionary, and for every such pair and each of
  the five provider kinds the ID handed to the task is: the enhanced value as a string
  when it is present and not empty (truthy), else the basic webhook value as a string
  when that one is truthy, else absent. A non-empty string is handed on as it is. In
  particular enhanced \<^verbatim>\<open>{TMDB: "1"}\<close> and basic \<^verbatim>\<open>{TMDB: "2", IMDb: "9"}\<close> give TMDB
  \<^verbatim>\<open>"1"\<close> and IMDb \<^verbatim>\<open>"9"\<close>.
\<close>

theorem final_ids_prefer_enhanced:
  "(handle ev r (Some payload) w = (Submitted s, w') \<longrightarrow>
      (\<exists>idn. identify payload = Inr idn \<and>
             s = dispatch idn (fst (enhance_or_default ev r idn payload w))))
   \<and> task_id kind (dispatch idn md) =
       (if truthy (dict_get md (metadata_key kind) PNone)
          then PStr (py_str (dict_get md (metadata_key kind) PNone))
        else if truthy (basic_id kind idn) then PStr (py_str (basic_id kind idn))
        else PNone)
   \<and> (e \<noteq> [] \<and> dict_get md (metadata_key kind) PNone = PStr e \<longrightarrow>
        task_id kind (dispatch idn md) = PStr e)
   \<and> (\<not> truthy (dict_get md (metadata_key kind) PNone) \<and> b \<noteq> [] \<and> basic_id kind idn = PStr b \<longrightarrow>
        task_id kind (dispatch idn md) = PStr b)
   \<and> task_id TMDB (dispatch (idn\<lparr>r_basic_tmdb_id := PStr ''2'', r_basic_imdb_id := PStr ''9''\<rparr>)
                      [(''tmdb_id'', PStr ''1'')]) = PStr ''1''
   \<and> task_id IMDb (dispatch (idn\<lparr>r_basic_tmdb_id := PStr ''2'', r_basic_imdb_id := PStr ''9''\<rparr>)
                      [(''tmdb_id'', PStr ''1'')]) = PStr ''9''"
proof -
  have a: "handle ev r (Some payload) w = (Submitted s, w') \<longrightarrow>
      (\<exists>idn. identify payload = Inr idn \<and>
             s = dispatch idn (fst (enhance_or_default ev r idn payload w)))"
    using handle_Submitted by blast
  have b: "task_id kind (dispatch idn md) =
       (if truthy (dict_get md (metadata_key kind) PNone)
          then PStr (py_str (dict_get md (metadata_key kind) PNone))
        else if truthy (basic_id kind idn) then PStr (py_str (basic_id kind idn))
        else PNone)" for idn md
    by (simp add: task_id_dispatch str_or_none_def final_id_def py_or_def)
  have c: "task_id TMDB (dispatch (idn\<lparr>r_basic_tmdb_id := PStr ''2'', r_basic_imdb_id := PStr ''9''\<rparr>)
                      [(''tmdb_id'', PStr ''1'')]) = PStr ''1''"
    by (simp add: task_id_dispatch str_or_none_def final_id_def py_or_def dict_get_def py_str_def
          del: task_id.simps)
  have d: "task_id IMDb (dispatch (idn\<lparr>r_basic_tmdb_id := PStr ''2'', r_basic_imdb_id := PStr ''9''\<rparr>)
                      [(''tmdb_id'', PStr ''1'')]) = PStr ''9''"
    by (simp add: task_id_dispatch str_or_none_def final_id_def py_or_def dict_get_def py_str_def
          del: task_id.simps)
  show ?thesis
    using a b [of idn md] c d by (simp add: py_str_def)
qed

theorem final_ids_witness:
  "handle \<lparr>EMBY_SERVER_URL = Some ''http://emby'', EMBY_API_KEY = None\<rparr>
          \<lparr>respond = (\<lambda>n req. if req_path req = ''/emby/Users''
                                then Response 200 (Some (PList [PDict [(''Id'', PStr ''u1'')]]))
                                else Response 200 (Some (PDict [(''ProviderIds'',
                                                                 PDict [(''Tmdb'', PStr ''1'')])]))),
            client_opens = (\<lambda>n. True)\<rparr>
          (Some (PDict [(''Event'', PStr ''item.add''),
                        (''Item'', PDict [(''Type'', PStr ''Movie''), (''Name'', PStr ''Foo''),
                                          (''Id'', PStr ''i1''),
                                          (''ProviderIds'', PDict [(''Tmdb'', PStr ''2''),
                                                                   (''IMDB'', PStr ''9'')])])]))
          (None, \<lparr>clients_created = 0, requests = []\<rparr>)
     = (Submitted
        \<lparr>animeTitle = PStr ''Foo'', mediaType = ''movie'', season = PInt 1,
         currentEpisodeIndex = PInt 1, year = PNone, searchKeyword = PStr ''Foo'',
         doubanId = PNone, tmdbId = PStr ''1'', imdbId = PStr ''9'', tvdbId = PNone,
         bangumiId = PNone, webhookSource = ''emby'', eventType = PStr ''item.add'',
         task_title = task_title_prefix @ ''Foo'',
         unique_key = ''webhook-search-Foo-S1-E1''\<rparr>,
        (Some \<lparr>emby_url = Some ''http://emby'', emby_api_key = None, session = True,
               user_id = PStr ''u1'', enabled = True\<rparr>,
         \<lparr>clients_created = 1,
          requests = [\<lparr>req_base = Some ''http://emby'', req_path = ''/emby/Users'', req_api_key = None\<rparr>,
                      \<lparr>req_base = Some ''http://emby'', req_path = ''/emby/Users/u1/Items/i1'',
                       req_api_key = None\<rparr>]\<rparr>))
   \<and> (\<exists>idn. identify (PDict [(''Event'', PStr ''item.add''),
                        (''Item'', PDict [(''Type'', PStr ''Movie''), (''Name'', PStr ''Foo''),
                                          (''Id'', PStr ''i1''),
                                          (''ProviderIds'', PDict [(''Tmdb'', PStr ''2''),
                                                                   (''IMDB'', PStr ''9'')])])])
              = Inr idn)"
proof -
  let ?ev = "\<lparr>EMBY_SERVER_URL = Some ''http://emby'', EMBY_API_KEY = None\<rparr>"
  let ?r = "\<lparr>respond = (\<lambda>n req. if req_path req = ''/emby/Users''
                                then Response 200 (Some (PList [PDict [(''Id'', PStr ''u1'')]]))
                                else Response 200 (Some (PDict [(''ProviderIds'',
                                                                 PDict [(''Tmdb'', PStr ''1'')])]))),
            client_opens = (\<lambda>n. True)\<rparr>"
  let ?p = "PDict [(''Event'', PStr ''item.add''),
                        (''Item'', PDict [(''Type'', PStr ''Movie''), (''Name'', PStr ''Foo''),
                                          (''Id'', PStr ''i1''),
                                          (''ProviderIds'', PDict [(''Tmdb'', PStr ''2''),
                                                                   (''IMDB'', PStr ''9'')])])]"
  let ?s = "\<lparr>animeTitle = PStr ''Foo'', mediaType = ''movie'', season = PInt 1,
         currentEpisodeIndex = PInt 1, year = PNone, searchKeyword = PStr ''Foo'',
         doubanId = PNone, tmdbId = PStr ''1'', imdbId = PStr ''9'', tvdbId = PNone,
         bangumiId = PNone, webhookSource = ''emby'', eventType = PStr ''item.add'',
         task_title = task_title_prefix @ ''Foo'',
         unique_key = ''webhook-search-Foo-S1-E1''\<rparr>"
  let ?w' = "(Some \<lparr>emby_url = Some ''http://emby'', emby_api_key = None, session = True,
               user_id = PStr ''u1'', enabled = True\<rparr>,
         \<lparr>clients_created = 1,
          requests = [\<lparr>req_base = Some ''http://emby'', req_path = ''/emby/Users'', req_api_key = None\<rparr>,
                      \<lparr>req_base = Some ''http://emby'', req_path = ''/emby/Users/u1/Items/i1'',
                       req_api_key = None\<rparr>]\<rparr>)"
  have h: "handle ?ev ?r (Some ?p) (None, \<lparr>clients_created = 0, requests = []\<rparr>) = (Submitted ?s, ?w')"
    by code_simp
  from final_ids_prefer_enhanced [where ev = ?ev and r = ?r and payload = ?p and s = ?s and w' = ?w'
      and w = "(None, \<lparr>clients_created = 0, requests = []\<rparr>)"] h
  have "\<exists>idn. identify ?p = Inr idn" by blast
  with h show ?thesis by blast
qed

text \<open>
  Claim C1, as stated, fails on a present value that is empty: a payload whose
  \<^verbatim>\<open>ProviderIds\<close> holds \<^verbatim>\<open>"Tmdb": ""\<close> is dispatched, with the enhancer disabled, without
  a TMDB ID, and an enhanced \<^verbatim>\<open>""\<close> gives way to the basic value \<^verbatim>\<open>"2"\<close>.
\<close>

theorem empty_basic_id_counterexample:
  "present (dict_get [(''Tmdb'', PStr [])] (webhook_key TMDB) PNone)
   \<and> (case fst (handle \<lparr>EMBY_SERVER_URL = None, EMBY_API_KEY = None\<rparr>
          \<lparr>respond = (\<lambda>n req. Timeout), client_opens = (\<lambda>n. True)\<rparr>
          (Some (PDict [(''Event'', PStr ''item.add''),
                        (''Item'', PDict [(''Type'', PStr ''Movie''), (''Name'', PStr ''Foo''),
                                          (''ProviderIds'', PDict [(''Tmdb'', PStr [])])])]))
          (None, \<lparr>clients_created = 0, requests = []\<rparr>)) of
      Submitted s \<Rightarrow> task_id TMDB s = PNone
    | _ \<Rightarrow> False)
   \<and> present (dict_get [(''tmdb_id'', PStr [])] (metadata_key TMDB) PNone)
   \<and> task_id TMDB (dispatch
         \<lparr>r_event_type = PStr ''item.add'', r_item_id = PNone, r_series_id = PNone, r_year = PNone,
          r_basic_tmdb_id = PStr ''2'', r_basic_imdb_id = PNone, r_basic_tvdb_id = PNone,
          r_basic_douban_id = PNone, r_basic_bangumi_id = PNone, r_task_title = [],
          r_search_keyword = PStr ''Foo'', r_media_type = ''movie'', r_season_number = PInt 1,
          r_episode_number = PInt 1, r_anime_title = PStr ''Foo''\<rparr>
         [(''tmdb_id'', PStr [])]) = PStr ''2''"
  by code_simp

subsection \<open>The enhancement call\<close>

lemma any_values_default_metadata: "\<not> any_values default_metadata"
  by (simp add: any_values_def dict_items_def default_metadata_def)

lemma enhance_metadata_result:
  "\<exists>md st'. enhance_metadata r item_id series_id st = (Inr md, st') \<and>
             (md = default_metadata \<or> any_values md)"
  by (auto simp: enhance_metadata_def enhance_metadata_try_def Let_def
           split: prod.splits sum.splits if_splits)

lemma fetch_item_metadata_fails:
  assumes "\<forall>n req body. respond r n req \<noteq> Response 200 body"
  shows "fst (fetch_item_metadata r x st) \<noteq> Inr (Some md)"
  using assms
  by (auto simp: fetch_item_metadata_def session_get_def
           split: prod.splits sum.splits outcome.splits if_splits option.splits)

lemma merge_metadata_None: "merge_metadata None None = default_metadata"
  by (simp add: merge_metadata_def merge_source_def)

lemma enhance_metadata_fails:
  assumes "\<forall>n req body. respond r n req \<noteq> Response 200 body"
  shows "fst (enhance_metadata r item_id series_id st) = Inr default_metadata"
proof -
  have f: "fetch_item_metadata r x s = (Inr m, s') \<Longrightarrow> m = None" for x s m s'
    using fetch_item_metadata_fails [OF assms, of x s] by (cases m) auto
  have "fst (enhance_metadata_try r item_id series_id st) = Inr md \<Longrightarrow> md = default_metadata" for md
    by (auto simp: enhance_metadata_try_def Let_def merge_metadata_None
             split: prod.splits sum.splits if_splits dest!: f)
  then show ?thesis
    by (auto simp: enhance_metadata_def split: prod.splits sum.splits)
qed

lemma enhance_webhook_metadata_shaped:
  assumes "\<not> truthy webhook_data \<or> webhook_provider_ids webhook_data \<noteq> None"
  shows "\<exists>md. fst (enhance_webhook_metadata ev r item_id series_id webhook_data w) = Inr md"
proof -
  obtain md st' where e:
    "enhance_metadata r item_id series_id (get_metadata_enhancer ev (fst w), snd w) = (Inr md, st')"
    using enhance_metadata_result by blast
  obtain e1 n1 where st': "st' = (e1, n1)" by (cases st')
  show ?thesis
  proof (cases "\<not> any_values md \<and> truthy webhook_data")
    case False
    then show ?thesis
      using e by (auto simp: enhance_webhook_metadata_def st')
  next
    case True
    then obtain d where "webhook_provider_ids webhook_data = Some d"
      using assms by auto
    then obtain wmd where "extract_metadata_from_webhook webhook_data = Inr wmd"
      using extract_metadata_from_webhook_shaped by blast
    then show ?thesis
      using e True by (auto simp: enhance_webhook_metadata_def st')
  qed
qed

text \<open>
  What holds of the enhancement call. For every item ID, series ID, enhancer state and
  remote side (timeouts, transport errors, any status, any body, a client that cannot
  be constructed, no usable acting user), \<^verbatim>\<open>enhance_metadata\<close> returns a dictionary and
  never raises, and the dictionary is the all-\<^verbatim>\<open>None\<close> one when no request is answered
  with status 200. \<^verbatim>\<open>enhance_webhook_metadata\<close> returns a dictionary when the webhook
  data is absent or empty, or is an object whose \<^verbatim>\<open>Item\<close> is an object or missing and
  whose \<^verbatim>\<open>ProviderIds\<close> is an object or missing; every payload with which \<^verbatim>\<open>handle\<close>
  reaches the call is of that shape.
\<close>

lemma enhancement_returns_normally:
  "(\<exists>md. fst (enhance_metadata r item_id series_id st) = Inr md)
   \<and> ((\<forall>n req body. respond r n req \<noteq> Response 200 body) \<longrightarrow>
        fst (enhance_metadata r item_id series_id st) = Inr default_metadata)
   \<and> (\<not> truthy webhook_data \<or> webhook_provider_ids webhook_data \<noteq> None \<longrightarrow>
        (\<exists>md. fst (enhance_webhook_metadata ev r item_id series_id webhook_data w) = Inr md))
   \<and> (identify payload = Inr idn \<longrightarrow>
        (\<exists>md. fst (enhance_webhook_metadata ev r (r_item_id idn) (r_series_id idn) payload w) = Inr md))"
proof -
  have a: "\<exists>md. fst (enhance_metadata r item_id series_id st) = Inr md"
    using enhance_metadata_result [of r item_id series_id st] by auto
  have b: "(\<forall>n req body. respond r n req \<noteq> Response 200 body) \<longrightarrow>
        fst (enhance_metadata r item_id series_id st) = Inr default_metadata"
    using enhance_metadata_fails by blast
  have c: "\<not> truthy webhook_data \<or> webhook_provider_ids webhook_data \<noteq> None \<longrightarrow>
        (\<exists>md. fst (enhance_webhook_metadata ev r item_id series_id webhook_data w) = Inr md)"
    using enhance_webhook_metadata_shaped by blast
  have d: "identify payload = Inr idn \<longrightarrow>
        (\<exists>md. fst (enhance_webhook_metadata ev r (r_item_id idn) (r_series_id idn) payload w) = Inr md)"
  proof
    assume "identify payload = Inr idn"
    then have "webhook_provider_ids payload \<noteq> None"
      using identify_basic_ids by fastforce
    then show "\<exists>md. fst (enhance_webhook_metadata ev r (r_item_id idn) (r_series_id idn) payload w) = Inr md"
      using enhance_webhook_metadata_shaped by blast
  qed
  show ?thesis
    using a b c d by blast
qed

text \<open>
  Claim C4. The code departs from the claim in \<^verbatim>\<open>enhance_webhook_metadata\<close>: called with
  the webhook data \<^verbatim>\<open>{"Item": {"ProviderIds": null}}\<close> while the enhancer is disabled, it
  gets the all-\<^verbatim>\<open>None\<close> dictionary from \<^verbatim>\<open>enhance_metadata\<close>, turns to the fallback
  extraction, which stands outside every \<^verbatim>\<open>try\<close>, and \<^verbatim>\<open>"Tmdb" in None\<close> raises
  \<^verbatim>\<open>TypeError\<close> to the caller, where the claim, the function's docstring and the
  \<^verbatim>\<open>except Exception\<close> of \<^verbatim>\<open>enhance_metadata\<close> all have a dictionary returned.
\<close>

theorem enhance_webhook_metadata_raises_on_null_provider_ids:
  "enhance_webhook_metadata \<lparr>EMBY_SERVER_URL = None, EMBY_API_KEY = None\<rparr>
      \<lparr>respond = (\<lambda>n req. Timeout), client_opens = (\<lambda>n. True)\<rparr>
      (PStr ''i1'') PNone
      (PDict [(''Item'', PDict [(''ProviderIds'', PNone)])])
      (None, \<lparr>clients_created = 0, requests = []\<rparr>)
   = (Inl TypeError,
      (Some (SafeMetadataEnhancer_init None None), \<lparr>clients_created = 0, requests = []\<rparr>))"
  by code_simp

subsection \<open>The fallback to the webhook data\<close>

lemma set_dict_items: "set (dict_items d) = {(k, v). map_of d k = Some v}"
  using graph_map_of [of d] by (auto simp: dict_items_def Map.graph_def)

lemma any_values_iff: "any_values d \<longleftrightarrow> (\<exists>k v. map_of d k = Some v \<and> truthy v)"
  by (auto simp: any_values_def list_ex_iff set_dict_items)

lemma extract_loop_keys:
  "extract_loop p ms md = Inr md' \<Longrightarrow> snd ` set ms \<subseteq> fst ` set md \<Longrightarrow> map fst md' = map fst md"
proof (induction ms arbitrary: md)
  case Nil
  then show ?case by simp
next
  case (Cons m ms)
  obtain ns t where m: "m = (ns, t)" by (cases m)
  have t: "t \<in> fst ` set md" and rest: "snd ` set ms \<subseteq> fst ` set md"
    using Cons.prems(2) by (simp_all add: m)
  have keep: "map fst (dict_set md t v) = map fst md" for v
    using t by (simp add: dict_set_def update_keys)
  from Cons.prems(1) show ?case
  proof (cases "first_alias p ns")
    case (Inl e)
    then show ?thesis using Cons.prems(1) by (simp add: m)
  next
    case (Inr res)
    show ?thesis
    proof (cases res)
      case None
      then show ?thesis
        using Cons.prems(1) Inr Cons.IH [OF _ rest] by (simp add: m)
    next
      case (Some v)
      have "extract_loop p ms (dict_set md t v) = Inr md'"
        using Cons.prems(1) Inr Some by (simp add: m)
      moreover have "snd ` set ms \<subseteq> fst ` set (dict_set md t v)"
        using rest keep [of v] by (metis list.set_map)
      ultimately have "map fst md' = map fst (dict_set md t v)"
        by (rule Cons.IH)
      then show ?thesis
        by (simp add: keep)
    qed
  qed
qed

lemma metadata_key_cases:
  "k \<in> fst ` set default_metadata \<Longrightarrow> \<exists>kind. k = metadata_key kind"
proof -
  assume "k \<in> fst ` set default_metadata"
  then have "k = metadata_key TMDB \<or> k = metadata_key IMDb \<or> k = metadata_key TVDB \<or>
             k = metadata_key Douban \<or> k = metadata_key Bangumi"
    by (auto simp: default_metadata_def)
  then show ?thesis by blast
qed

lemma resolve_aliases_truthy_iff:
  "truthy (resolve_aliases d names) \<longleftrightarrow> present (resolve_aliases d names)"
proof (cases "find (\<lambda>a. truthy (dict_get d a PNone)) names")
  case None
  then show ?thesis by (simp add: resolve_aliases_def present_def)
next
  case (Some a)
  then have "truthy (dict_get d a PNone)"
    by (auto simp: find_Some_iff)
  then show ?thesis
    using py_str_nonempty by (simp add: resolve_aliases_def Some present_def)
qed

text \<open>On what the table's loop returns for an identifier map, \<^verbatim>\<open>any\<close> holds exactly when one
  of the five provider kinds has a present value.\<close>

lemma any_values_extracted:
  assumes "extract_loop (PDict d) id_mappings default_metadata = Inr md"
  shows "any_values md \<longleftrightarrow> (\<exists>kind. present (dict_get md (metadata_key kind) PNone))"
proof
  assume "any_values md"
  then obtain k v where kv: "map_of md k = Some v" "truthy v"
    by (auto simp: any_values_iff)
  have "map fst md = map fst default_metadata"
    using extract_loop_keys [OF assms] by (auto simp: id_mappings_def default_metadata_def)
  then have "fst ` set md = fst ` set default_metadata"
    by (metis list.set_map)
  moreover have "k \<in> fst ` set md"
    using kv(1) by (metis domI dom_map_of_conv_image_fst)
  ultimately obtain kind where "k = metadata_key kind"
    using metadata_key_cases by blast
  then have "dict_get md (metadata_key kind) PNone = v"
    using kv(1) by (simp add: dict_get_def)
  then have "present (dict_get md (metadata_key kind) PNone)"
    using kv(2) by (auto simp: present_def)
  then show "\<exists>kind. present (dict_get md (metadata_key kind) PNone)" ..
next
  assume "\<exists>kind. present (dict_get md (metadata_key kind) PNone)"
  then obtain kind where p: "present (dict_get md (metadata_key kind) PNone)" ..
  then have t: "truthy (dict_get md (metadata_key kind) PNone)"
    using extract_loop_dict_kind [OF assms, of kind] resolve_aliases_truthy_iff by simp
  then obtain v where "map_of md (metadata_key kind) = Some v" "truthy v"
    by (cases "map_of md (metadata_key kind)") (auto simp: dict_get_def)
  then show "any_values md"
    by (auto simp: any_values_iff)
qed

text \<open>
  What holds of the fallback. For every call in which the API result holds no value and
  the webhook data is a non-empty object whose \<^verbatim>\<open>Item\<close> is an object or missing and
  whose \<^verbatim>\<open>ProviderIds\<close> is an object or missing, the extraction from the webhook data
  returns a dictionary that follows the alias rules (\<open>resolve_aliases\<close> for each provider
  kind); that dictionary is the result when one of its five values is present, and the
  all-\<^verbatim>\<open>None\<close> dictionary is the result otherwise. Whenever \<^verbatim>\<open>handle\<close> reaches the
  enhancer it goes on to submit a task.
\<close>

lemma webhook_fallback_when_enhancement_absent:
  "(enhance_metadata r item_id series_id (get_metadata_enhancer ev (fst w), snd w) = (Inr api_md, api_st)
      \<and> \<not> any_values api_md \<and> truthy webhook_data \<and> webhook_provider_ids webhook_data = Some d
    \<longrightarrow> (\<exists>wmd. extract_metadata_from_webhook webhook_data = Inr wmd
           \<and> (\<forall>kind. dict_get wmd (metadata_key kind) PNone = resolve_aliases d (alias_list kind))
           \<and> (any_values wmd \<longleftrightarrow> (\<exists>kind. present (dict_get wmd (metadata_key kind) PNone)))
           \<and> api_md = default_metadata
           \<and> fst (enhance_webhook_metadata ev r item_id series_id webhook_data w)
               = Inr (if any_values wmd then wmd else default_metadata)))
   \<and> (identify payload = Inr idn \<longrightarrow> (\<exists>s w'. handle ev r (Some payload) w = (Submitted s, w')))"
proof (intro conjI impI)
  assume a: "enhance_metadata r item_id series_id (get_metadata_enhancer ev (fst w), snd w) = (Inr api_md, api_st)
      \<and> \<not> any_values api_md \<and> truthy webhook_data \<and> webhook_provider_ids webhook_data = Some d"
  then obtain p it where s: "webhook_data = PDict p" "dict_get p ''Item'' (PDict []) = PDict it"
    "dict_get it ''ProviderIds'' (PDict []) = PDict d"
    by (auto simp: webhook_provider_ids_Some)
  obtain wmd where loop: "extract_loop (PDict d) id_mappings default_metadata = Inr wmd"
    using extract_loop_dict_Inr by blast
  have x: "extract_metadata_from_webhook webhook_data = Inr wmd"
    using s loop by (simp add: extract_metadata_from_webhook_def)
  have api_md: "api_md = default_metadata"
    using a enhance_metadata_result [of r item_id series_id "(get_metadata_enhancer ev (fst w), snd w)"]
    by auto
  obtain e1 n1 where api_st: "api_st = (e1, n1)" by (cases api_st)
  have res: "fst (enhance_webhook_metadata ev r item_id series_id webhook_data w)
               = Inr (if any_values wmd then wmd else default_metadata)"
    using a x api_md by (simp add: enhance_webhook_metadata_def api_st)
  show "\<exists>wmd. extract_metadata_from_webhook webhook_data = Inr wmd
           \<and> (\<forall>kind. dict_get wmd (metadata_key kind) PNone = resolve_aliases d (alias_list kind))
           \<and> (any_values wmd \<longleftrightarrow> (\<exists>kind. present (dict_get wmd (metadata_key kind) PNone)))
           \<and> api_md = default_metadata
           \<and> fst (enhance_webhook_metadata ev r item_id series_id webhook_data w)
               = Inr (if any_values wmd then wmd else default_metadata)"
    using x extract_loop_dict_kind [OF loop] any_values_extracted [OF loop] api_md res by blast
next
  assume "identify payload = Inr idn"
  then show "\<exists>s w'. handle ev r (Some payload) w = (Submitted s, w')"
    by (simp add: handle_def split: prod.splits)
qed

text \<open>
  Claim C7. The code departs from the claim for supplied webhook data whose \<^verbatim>\<open>Item\<close> is
  \<^verbatim>\<open>null\<close>: the API result is all-\<^verbatim>\<open>None\<close> and the data is truthy, so the extraction
  pass runs, and \<^verbatim>\<open>item.get\<close> on \<^verbatim>\<open>None\<close> raises \<^verbatim>\<open>AttributeError\<close> outside every \<^verbatim>\<open>try\<close>,
  where the claim has the all-\<^verbatim>\<open>None\<close> result returned. It is the defect of claim C4,
  the unguarded fallback extraction.
\<close>

theorem enhance_webhook_metadata_raises_on_null_item:
  "enhance_metadata \<lparr>respond = (\<lambda>n req. Timeout), client_opens = (\<lambda>n. True)\<rparr>
      (PStr ''i1'') PNone
      (get_metadata_enhancer \<lparr>EMBY_SERVER_URL = None, EMBY_API_KEY = None\<rparr> None,
       \<lparr>clients_created = 0, requests = []\<rparr>)
     = (Inr default_metadata,
        (SafeMetadataEnhancer_init None None, \<lparr>clients_created = 0, requests = []\<rparr>))
   \<and> \<not> any_values default_metadata
   \<and> truthy (PDict [(''Event'', PStr ''item.add''), (''Item'', PNone)])
   \<and> fst (enhance_webhook_metadata \<lparr>EMBY_SERVER_URL = None, EMBY_API_KEY = None\<rparr>
            \<lparr>respond = (\<lambda>n req. Timeout), client_opens = (\<lambda>n. True)\<rparr>
            (PStr ''i1'') PNone
            (PDict [(''Event'', PStr ''item.add''), (''Item'', PNone)])
            (None, \<lparr>clients_created = 0, requests = []\<rparr>))
     = Inl AttributeError"
  by code_simp

subsection \<open>The series/item merge on what the enhancer fetches\<close>

lemma id_values_iff:
  "id_values (Some d) \<longleftrightarrow> (\<forall>k v. map_of d k = Some v \<longrightarrow> id_value v)"
  by (auto simp: id_values_def list_all_iff set_dict_items)

lemma id_value_md_get: "id_values m \<Longrightarrow> id_value (md_get m k)"
proof (cases m)
  case None
  then show ?thesis by (simp add: id_value_def)
next
  case (Some d)
  assume "id_values m"
  then show ?thesis
    using Some by (cases "map_of d k") (auto simp: id_values_iff dict_get_def id_value_def)
qed

lemma id_value_truthy: "id_value v \<Longrightarrow> truthy v \<longleftrightarrow> present v"
  by (cases v) (simp_all add: id_value_def present_def)

lemma id_value_absent: "id_value v \<Longrightarrow> \<not> present v \<Longrightarrow> v = PNone"
  by (simp add: present_def)

lemma extract_loop_id_values:
  "extract_loop p ms md = Inr md' \<Longrightarrow> id_values (Some md) \<Longrightarrow> id_values (Some md')"
proof (induction ms arbitrary: md)
  case Nil
  then show ?case by simp
next
  case (Cons m ms)
  obtain ns t where m: "m = (ns, t)" by (cases m)
  show ?case
  proof (cases "first_alias p ns")
    case (Inl e)
    then show ?thesis using Cons.prems(1) by (simp add: m)
  next
    case (Inr res)
    show ?thesis
    proof (cases res)
      case None
      then show ?thesis
        using Cons.prems Inr Cons.IH by (simp add: m)
    next
      case (Some v)
      from first_alias_Some [OF Inr [unfolded Some]] obtain raw
        where "truthy raw" "v = PStr (py_str raw)"
        by blast
      then have v: "id_value v"
        using py_str_nonempty by (simp add: id_value_def)
      have step: "extract_loop p ms (dict_set md t v) = Inr md'"
        using Cons.prems(1) Inr Some by (simp add: m)
      have "id_values (Some (dict_set md t v))"
        using Cons.prems(2) v by (auto simp: id_values_iff dict_set_def update_conv')
      then show ?thesis
        using Cons.IH [OF step] by simp
    qed
  qed
qed

lemma id_values_default_metadata: "id_values (Some default_metadata)"
  by (auto simp: id_values_iff default_metadata_def id_value_def split: if_splits)

lemma extract_metadata_ids_id_values:
  "extract_metadata_ids data = Inr md \<Longrightarrow> id_values (Some md)"
  using extract_loop_id_values [OF _ id_values_default_metadata]
  by (auto simp: extract_metadata_ids_def split: sum.splits)

lemma fetch_item_metadata_id_values:
  "fetch_item_metadata r x st = (Inr fetched, st') \<Longrightarrow> id_values fetched"
proof (cases fetched)
  case None
  then show ?thesis by (simp add: id_values_def)
next
  case (Some md)
  assume "fetch_item_metadata r x st = (Inr fetched, st')"
  then have "\<exists>data. extract_metadata_ids data = Inr md"
    unfolding Some
    by (auto simp: fetch_item_metadata_def session_get_def
             split: prod.splits sum.splits outcome.splits if_splits option.splits)
  then show ?thesis
    using extract_metadata_ids_id_values Some by blast
qed

text \<open>
  Claim C2. \<^verbatim>\<open>_merge_metadata\<close> is given what \<^verbatim>\<open>_fetch_item_metadata\<close> returned for the
  series and for the item; each is \<^verbatim>\<open>None\<close> or a dictionary whose values are \<^verbatim>\<open>None\<close> or
  non-empty strings. For every such pair and every key the merge gives the series-level
  value when it is present and the item-level value otherwise: a present series-level
  value always overrides the item-level value, and an absent series-level value leaves
  the item-level value, present or not, as it was.
\<close>

theorem merge_metadata_series_over_item:
  "(fetch_item_metadata r x st = (Inr fetched, st') \<longrightarrow> id_values fetched)
   \<and> (id_values series_metadata \<and> id_values item_metadata \<longrightarrow>
        dict_get (merge_metadata series_metadata item_metadata) k PNone =
          (if present (md_get series_metadata k) then md_get series_metadata k
           else md_get item_metadata k)
        \<and> (present (md_get series_metadata k) \<longrightarrow>
             dict_get (merge_metadata series_metadata item_metadata) k PNone
               = md_get series_metadata k)
        \<and> (\<not> present (md_get series_metadata k) \<longrightarrow>
             dict_get (merge_metadata series_metadata item_metadata) k PNone
               = md_get item_metadata k))"
proof (intro conjI impI)
  assume "fetch_item_metadata r x st = (Inr fetched, st')"
  then show "id_values fetched"
    by (rule fetch_item_metadata_id_values)
next
  assume a: "id_values series_metadata \<and> id_values item_metadata"
  have s: "id_value (md_get series_metadata k)" and i: "id_value (md_get item_metadata k)"
    using a id_value_md_get by blast+
  show eq: "dict_get (merge_metadata series_metadata item_metadata) k PNone =
          (if present (md_get series_metadata k) then md_get series_metadata k
           else md_get item_metadata k)"
    using id_value_truthy [OF s] id_value_truthy [OF i] id_value_absent [OF i]
    by (auto simp: merge_metadata_get)
  show "dict_get (merge_metadata series_metadata item_metadata) k PNone = md_get series_metadata k"
    if "present (md_get series_metadata k)"
    using eq that by simp
  show "dict_get (merge_metadata series_metadata item_metadata) k PNone = md_get item_metadata k"
    if "\<not> present (md_get series_metadata k)"
    using eq that by simp
qed

theorem merge_metadata_witness:
  "fetch_item_metadata
      \<lparr>respond = (\<lambda>n req. if req_path req = ''/emby/Users''
                            then Response 200 (Some (PList [PDict [(''Id'', PStr ''u1'')]]))
                            else Response 200 (Some (PDict [(''ProviderIds'',
                                                             PDict [(''Tmdb'', PStr ''55'')])]))),
        client_opens = (\<lambda>n. True)\<rparr>
      (PStr ''s1'')
      (SafeMetadataEnhancer_init (Some ''http://emby'') None, \<lparr>clients_created = 0, requests = []\<rparr>)
     = (Inr (Some [(''tmdb_id'', PStr ''55''), (''imdb_id'', PNone), (''tvdb_id'', PNone),
                   (''douban_id'', PNone), (''bangumi_id'', PNone)]),
        (\<lparr>emby_url = Some ''http://emby'', emby_api_key = None, session = True,
          user_id = PStr ''u1'', enabled = True\<rparr>,
         \<lparr>clients_created = 1,
          requests = [\<lparr>req_base = Some ''http://emby'', req_path = ''/emby/Users'', req_api_key = None\<rparr>,
                      \<lparr>req_base = Some ''http://emby'', req_path = ''/emby/Users/u1/Items/s1'',
                       req_api_key = None\<rparr>]\<rparr>))
   \<and> id_values (Some [(''tmdb_id'', PStr ''55''), (''imdb_id'', PNone), (''tvdb_id'', PNone),
                      (''douban_id'', PNone), (''bangumi_id'', PNone)])
   \<and> dict_get (merge_metadata
                 (Some [(''tmdb_id'', PStr ''55''), (''imdb_id'', PNone), (''tvdb_id'', PNone),
                        (''douban_id'', PNone), (''bangumi_id'', PNone)])
                 (Some [(''tmdb_id'', PStr ''7''), (''imdb_id'', PStr ''tt3''), (''tvdb_id'', PNone),
                        (''douban_id'', PNone), (''bangumi_id'', PNone)]))
        ''tmdb_id'' PNone = PStr ''55''
   \<and> dict_get (merge_metadata
                 (Some [(''tmdb_id'', PStr ''55''), (''imdb_id'', PNone), (''tvdb_id'', PNone),
                        (''douban_id'', PNone), (''bangumi_id'', PNone)])
                 (Some [(''tmdb_id'', PStr ''7''), (''imdb_id'', PStr ''tt3''), (''tvdb_id'', PNone),
                        (''douban_id'', PNone), (''bangumi_id'', PNone)]))
        ''imdb_id'' PNone = PStr ''tt3''"
proof -
  let ?r = "\<lparr>respond = (\<lambda>n req. if req_path req = ''/emby/Users''
                            then Response 200 (Some (PList [PDict [(''Id'', PStr ''u1'')]]))
                            else Response 200 (Some (PDict [(''ProviderIds'',
                                                             PDict [(''Tmdb'', PStr ''55'')])]))),
        client_opens = (\<lambda>n. True)\<rparr>"
  let ?st = "(SafeMetadataEnhancer_init (Some ''http://emby'') None, \<lparr>clients_created = 0, requests = []\<rparr>)"
  let ?st' = "(\<lparr>emby_url = Some ''http://emby'', emby_api_key = None, session = True,
          user_id = PStr ''u1'', enabled = True\<rparr>,
         \<lparr>clients_created = 1,
          requests = [\<lparr>req_base = Some ''http://emby'', req_path = ''/emby/Users'', req_api_key = None\<rparr>,
                      \<lparr>req_base = Some ''http://emby'', req_path = ''/emby/Users/u1/Items/s1'',
                       req_api_key = None\<rparr>]\<rparr>)"
  let ?s = "Some [(''tmdb_id'', PStr ''55''), (''imdb_id'', PNone), (''tvdb_id'', PNone),
                  (''douban_id'', PNone), (''bangumi_id'', PNone)]"
  let ?i = "Some [(''tmdb_id'', PStr ''7''), (''imdb_id'', PStr ''tt3''), (''tvdb_id'', PNone),
                  (''douban_id'', PNone), (''bangumi_id'', PNone)]"
  have f: "fetch_item_metadata ?r (PStr ''s1'') ?st = (Inr ?s, ?st')"
    by code_simp
  have i: "id_values ?i"
    by code_simp
  have s: "id_values ?s"
    using merge_metadata_series_over_item [where r = ?r and x = "PStr ''s1''" and st = ?st
        and fetched = ?s and st' = ?st'] f
    by blast
  have g: "md_get ?s ''tmdb_id'' = PStr ''55''" "md_get ?s ''imdb_id'' = PNone"
      "md_get ?i ''imdb_id'' = PStr ''tt3''"
    by (simp_all add: dict_get_def)
  have t: "dict_get (merge_metadata ?s ?i) ''tmdb_id'' PNone = PStr ''55''"
    using merge_metadata_series_over_item [where series_metadata = ?s and item_metadata = ?i
        and k = "''tmdb_id''"] s i g
    by (simp add: present_def)
  have m: "dict_get (merge_metadata ?s ?i) ''imdb_id'' PNone = PStr ''tt3''"
    using merge_metadata_series_over_item [where series_metadata = ?s and item_metadata = ?i
        and k = "''imdb_id''"] s i g
    by (simp add: present_def)
  show ?thesis
    using f s t m by simp
qed

end
